theory Spec2Isabelle
  imports Main "HOL-Library.Sublist"
begin

section \<open>Database backup and restore tool: embedding of main.js\<close>

text \<open>
  The program is a sequence of calls into external collaborators (a shell running
  mysqldump or mysql, the archiver and unzipper libraries, the Google Drive client, the
  inquirer prompt library and the local file system). Each function of main.js becomes a
  function that takes the world and returns the new world, together with what becomes of
  its promise. What the collaborators answer is not decided by main.js, so it is a
  parameter: the record \<open>env\<close> holds one answer for every external call the program
  makes. The emoji and the line breaks that start the console messages are left out of
  the message texts, and so is the separator line among the choices of the menu.
\<close>

subsection \<open>Values, events and the world\<close>

type_synonym error = string

text \<open>What a promise resolves with: \<^verbatim>\<open>resolve()\<close> gives \<open>JSUndefined\<close>.\<close>

datatype js_value = JSUndefined | JSNumber nat | JSString string

text \<open>
  What becomes of a promise: it resolves with a value, it rejects with an error (given by
  its message), or it never settles because the process has ended meanwhile. The last is
  what happens when a stream emits \<^verbatim>\<open>error\<close> and has no listener for it: Node throws the
  error as an uncaught exception and the process ends at once, with status 1.
\<close>

datatype 'a outcome = Resolved 'a | Rejected error | Never

text \<open>
  The observable actions, in the order the program performs them. \<open>CleanupCalled\<close>
  records a call of \<^verbatim>\<open>cleanup(files)\<close> with its argument; the other events are calls
  into the collaborators.
\<close>

datatype event =
    ConsoleClear
  | ConsoleLog string
  | ConsoleError string
  | Exec string
  | CreateWriteStream string
  | CreateReadStream string
  | ArchiveFile string string
  | DriveCreate string string
  | DriveList string
  | DriveGet string
  | UnzipExtract string string
  | PromptList string "string list"
  | PromptConfirm string bool
  | CleanupCalled "string list"
  | UnlinkSync string
  | ProcessExit nat
  | UncaughtException string

text \<open>
  The files that exist, the write streams whose file is not opened yet, the trace and
  \<^verbatim>\<open>process.exitCode\<close>. \<^verbatim>\<open>fs.createWriteStream\<close> only schedules the opening of
  its file: the file exists once the opening has completed, which may be after the code
  that awaits something else has gone on.
\<close>

record world =
  fs_files :: "string set"
  pending_opens :: "string list"
  trace :: "event list"
  exitCode :: nat

definition emit :: "event \<Rightarrow> world \<Rightarrow> world" where
  "emit e w = w\<lparr>trace := trace w @ [e]\<rparr>"

definition create_file :: "string \<Rightarrow> world \<Rightarrow> world" where
  "create_file p w = w\<lparr>fs_files := insert p (fs_files w)\<rparr>"

definition remove_file :: "string \<Rightarrow> world \<Rightarrow> world" where
  "remove_file p w = w\<lparr>fs_files := fs_files w - {p}\<rparr>"

text \<open>A write stream is created on \<open>p\<close>; later its file is opened, and so created.\<close>

definition open_later :: "string \<Rightarrow> world \<Rightarrow> world" where
  "open_later p w = w\<lparr>pending_opens := pending_opens w @ [p]\<rparr>"

definition complete_open :: "string \<Rightarrow> world \<Rightarrow> world" where
  "complete_open p w =
     w\<lparr>fs_files := insert p (fs_files w), pending_opens := removeAll p (pending_opens w)\<rparr>"

text \<open>
  When the program has nothing left to run, the openings still pending complete before
  the process ends.
\<close>

definition drain_pending :: "world \<Rightarrow> world" where
  "drain_pending w = w\<lparr>fs_files := fs_files w \<union> set (pending_opens w), pending_opens := []\<rparr>"

subsection \<open>The answers of the external collaborators\<close>

text \<open>The three arguments of the callback of \<^verbatim>\<open>exec\<close>; \<open>exec_error\<close> is \<^verbatim>\<open>error.message\<close>.\<close>

record exec_result =
  exec_error :: "string option"
  exec_stdout :: string
  exec_stderr :: string

record drive_file =
  file_id :: string
  file_name :: string
  createdTime :: string

record drive_created =
  created_id :: string
  created_name :: string
  webViewLink :: string

text \<open>
  \<^verbatim>\<open>drive.files.get\<close> either rejects, or gives a stream that ends, or gives a stream
  that fails.
\<close>

datatype get_outcome = GetRejected error | StreamFailed error | StreamEnded

text \<open>
  What happens to the pack: the output stream closes (with the value of
  \<^verbatim>\<open>archive.pointer()\<close>), or the archiver emits \<^verbatim>\<open>error\<close> (the flag says whether the
  output file had been opened by then), or the output stream itself emits \<^verbatim>\<open>error\<close>
  because its file cannot be opened or written (the flag says whether the file exists).
  The output stream has no listener for \<^verbatim>\<open>error\<close>.
\<close>

datatype pack_outcome = OutputClosed nat | ArchiveError error bool | OutputError error bool

text \<open>
  What happens to the destination stream of a download while the request is awaited: its
  file is opened in time, or the opening completes only after the request has settled and
  the code after it has run, or the stream emits \<^verbatim>\<open>error\<close> because its file cannot be
  opened or written (the flag says whether the file exists). The destination stream has
  no listener for \<^verbatim>\<open>error\<close>.
\<close>

datatype dest_outcome = DestOpened | DestOpensLate | DestError error bool

text \<open>
  What happens to the extraction: it closes, or the extractor emits \<^verbatim>\<open>error\<close>, or the
  stream that reads the archive emits \<^verbatim>\<open>error\<close>, for which it has no listener.
\<close>

datatype unzip_outcome = ExtractClosed | ExtractError error | ReadError error

datatype action = Backup | Restore | ExitMenu

record env =
  now_iso :: string
  to_locale :: "string \<Rightarrow> string"
  mysqldump_result :: exec_result
  mysqldump_redirected :: bool
  archive_result :: pack_outcome
  upload_result :: "error + drive_created"
  list_result :: "error + drive_file list"
  menu_answer :: "error + action"
  select_answer :: "error + nat"
  confirm_answer :: "error + bool option"
  dest_result :: dest_outcome
  get_result :: get_outcome
  unzip_written :: "string list"
  unzip_result :: unzip_outcome
  mysql_result :: exec_result
  unlink_error :: "string \<Rightarrow> string option"

text \<open>
  \<open>now_iso\<close> is \<^verbatim>\<open>new Date().toISOString()\<close>; \<open>mysqldump_redirected\<close> says whether the
  shell opened (and so created) the target of the redirection \<^verbatim>\<open>> dumpFile\<close>;
  \<open>select_answer\<close> is the index of the chosen entry;
  \<open>confirm_answer\<close> is \<open>None\<close> when the user accepts the default of the prompt;
  \<open>unzip_written\<close> are the paths the extraction wrote before it closed or failed (the
  entry names of the archive); \<open>unlink_error\<close> gives the message of the error
  \<^verbatim>\<open>fs.unlinkSync\<close> throws on a path, if it throws.
\<close>

subsection \<open>Environment variables and configuration (lines 11-42)\<close>

type_synonym environ = "string \<rightharpoonup> string"

definition requiredEnvVars :: "string list" where
  "requiredEnvVars = [''DB_HOST'', ''DB_USER'', ''DB_NAME'',
     ''GDRIVE_CLIENT_EMAIL'', ''GDRIVE_PRIVATE_KEY'', ''GDRIVE_FOLDER_ID'']"

text \<open>\<^verbatim>\<open>!process.env[envVar]\<close>: the variable is unset or the empty string.\<close>

fun falsy :: "string option \<Rightarrow> bool" where
  "falsy None = True"
| "falsy (Some s) = (s = [])"

fun check_required :: "environ \<Rightarrow> string list \<Rightarrow> error + unit" where
  "check_required penv [] = Inr ()"
| "check_required penv (v # vs) =
     (if falsy (penv v) then Inl (''Missing required environment variable: '' @ v)
      else check_required penv vs)"

definition validate_env :: "environ \<Rightarrow> error + unit" where
  "validate_env penv =
     (case check_required penv requiredEnvVars of
        Inl e \<Rightarrow> Inl e
      | Inr u \<Rightarrow>
          if penv ''DB_PASSWORD'' = None
          then Inl (''Missing required environment variable: DB_PASSWORD. '' @
                    ''If you have no password, set it to DB_PASSWORD= in your .env file.'')
          else Inr ())"

record config =
  DB_HOST :: string
  DB_USER :: string
  DB_PASSWORD :: string
  DB_NAME :: string
  GDRIVE_CLIENT_EMAIL :: string
  GDRIVE_PRIVATE_KEY :: string
  GDRIVE_FOLDER_ID :: string

text \<open>Reading a variable that passed the validation; an unset one is never read.\<close>

definition getenv :: "environ \<Rightarrow> string \<Rightarrow> string" where
  "getenv penv v = (case penv v of None \<Rightarrow> [] | Some s \<Rightarrow> s)"

definition load_config :: "environ \<Rightarrow> error + config" where
  "load_config penv =
     (case validate_env penv of
        Inl e \<Rightarrow> Inl e
      | Inr u \<Rightarrow> Inr \<lparr>DB_HOST = getenv penv ''DB_HOST'', DB_USER = getenv penv ''DB_USER'',
                 DB_PASSWORD = getenv penv ''DB_PASSWORD'', DB_NAME = getenv penv ''DB_NAME'',
                 GDRIVE_CLIENT_EMAIL = getenv penv ''GDRIVE_CLIENT_EMAIL'',
                 GDRIVE_PRIVATE_KEY = getenv penv ''GDRIVE_PRIVATE_KEY'',
                 GDRIVE_FOLDER_ID = getenv penv ''GDRIVE_FOLDER_ID''\<rparr>)"

text \<open>\<^verbatim>\<open>const passwordArg = DB_PASSWORD ? `-p${DB_PASSWORD}` : ''\<close>\<close>

definition passwordArg :: "config \<Rightarrow> string" where
  "passwordArg cfg = (if DB_PASSWORD cfg \<noteq> [] then ''-p'' @ DB_PASSWORD cfg else [])"

definition dumpCmd :: "config \<Rightarrow> string \<Rightarrow> string" where
  "dumpCmd cfg dumpFile =
     ''mysqldump -h '' @ DB_HOST cfg @ '' -u '' @ DB_USER cfg @ '' '' @ passwordArg cfg @
     '' '' @ DB_NAME cfg @ '' > '' @ dumpFile"

definition importCmd :: "config \<Rightarrow> string \<Rightarrow> string" where
  "importCmd cfg sqlFile =
     ''mysql -h '' @ DB_HOST cfg @ '' -u '' @ DB_USER cfg @ '' '' @ passwordArg cfg @
     '' '' @ DB_NAME cfg @ '' < '' @ sqlFile"

text \<open>Decimal digits of a number, as a template literal prints it.\<close>

fun dec :: "nat \<Rightarrow> string" where
  "dec n = (if n < 10 then [''0123456789'' ! n]
            else dec (n div 10) @ [''0123456789'' ! (n mod 10)])"

subsection \<open>Backup functions (lines 48-100)\<close>

definition dumpDatabase :: "config \<Rightarrow> env \<Rightarrow> string \<Rightarrow> world \<Rightarrow> js_value outcome \<times> world" where
  "dumpDatabase cfg env dumpFile w =
     (let w1 = emit (ConsoleLog (''Creating database dump for '' @ DB_NAME cfg @ ''...'')) w;
          w2 = emit (Exec (dumpCmd cfg dumpFile)) w1;
          w3 = (if mysqldump_redirected env then create_file dumpFile w2 else w2)
      in case exec_error (mysqldump_result env) of
           Some message \<Rightarrow>
             (Rejected (''Database dump failed: '' @ message),
              emit (ConsoleError (''Database dump failed: '' @ exec_stderr (mysqldump_result env))) w3)
         | None \<Rightarrow>
             (Resolved JSUndefined, emit (ConsoleLog ''Database dump created successfully.'') w3))"

text \<open>
  The promise of \<^verbatim>\<open>zipFileFunc\<close> is resolved in the listener for \<^verbatim>\<open>close\<close> of the output
  and rejected in the listener for \<^verbatim>\<open>error\<close> of the archiver. An \<^verbatim>\<open>error\<close> of the
  output has no listener: the process ends, and the promise never settles.
\<close>

definition zipFileFunc :: "env \<Rightarrow> string \<Rightarrow> string \<Rightarrow> world \<Rightarrow> js_value outcome \<times> world" where
  "zipFileFunc env dumpFile zipFile w =
     (let w1 = emit (ConsoleLog (''Compressing '' @ dumpFile @ ''...'')) w;
          w2 = open_later zipFile (emit (CreateWriteStream zipFile) w1);
          w3 = emit (ArchiveFile dumpFile dumpFile) w2
      in case archive_result env of
           OutputClosed pointer \<Rightarrow>
             (Resolved JSUndefined,
              emit (ConsoleLog (''File compressed: '' @ zipFile @ '' ('' @ dec pointer @ '' bytes)''))
                (complete_open zipFile w3))
         | ArchiveError message opened \<Rightarrow>
             (Rejected (''Compression failed: '' @ message),
              emit (ConsoleError (''Compression failed: '' @ message))
                (if opened then complete_open zipFile w3 else w3))
         | OutputError message written \<Rightarrow>
             (Never,
              emit (UncaughtException message)
                (if written then complete_open zipFile w3 else w3)))"

definition uploadToGoogleDrive :: "config \<Rightarrow> env \<Rightarrow> string \<Rightarrow> world \<Rightarrow> js_value outcome \<times> world" where
  "uploadToGoogleDrive cfg env zipFile w =
     (let w1 = emit (ConsoleLog (''Uploading '' @ zipFile @ '' to Google Drive...'')) w;
          w2 = emit (CreateReadStream zipFile) w1;
          w3 = emit (DriveCreate zipFile (GDRIVE_FOLDER_ID cfg)) w2
      in case upload_result env of
           Inl message \<Rightarrow> (Rejected message, w3)
         | Inr d \<Rightarrow>
             (Resolved JSUndefined,
              emit (ConsoleLog (''Upload successful: { fileId: '' @ created_id d @ '', name: '' @
                 created_name d @ '', link: '' @ webViewLink d @ '' }'')) w3))"

subsection \<open>Restore functions (lines 106-172)\<close>

text \<open>The query \<^verbatim>\<open>q\<close> of \<^verbatim>\<open>drive.files.list\<close>; \<open>CHR 0x27\<close> is the single quote.\<close>

definition list_query :: "config \<Rightarrow> string" where
  "list_query cfg =
     [CHR 0x27] @ GDRIVE_FOLDER_ID cfg @ [CHR 0x27] @
     '' in parents and name contains '' @ [CHR 0x27] @ ''backup-'' @ [CHR 0x27] @
     '' and mimeType='' @ [CHR 0x27] @ ''application/zip'' @ [CHR 0x27] @
     '' and trashed = false''"

definition listBackupsFromDrive :: "config \<Rightarrow> env \<Rightarrow> world \<Rightarrow> drive_file list outcome \<times> world" where
  "listBackupsFromDrive cfg env w =
     (let w1 = emit (ConsoleLog ''Listing backups from Google Drive...'') w;
          w2 = emit (DriveList (list_query cfg)) w1
      in case list_result env of
           Inl e \<Rightarrow> (Rejected e, w2)
         | Inr files \<Rightarrow> (Resolved files, w2))"

text \<open>
  The \<^verbatim>\<open>try\<close> and \<^verbatim>\<open>catch\<close> of the executor of \<^verbatim>\<open>downloadFileFromDrive\<close> (lines
  121-138): the request and the listeners on the stream it gives.
\<close>

definition download_request :: "env \<Rightarrow> string \<Rightarrow> world \<Rightarrow> js_value outcome \<times> world" where
  "download_request env fileId w =
     (case get_result env of
        GetRejected e \<Rightarrow> (Rejected e, w)
      | StreamFailed e \<Rightarrow> (Rejected e, emit (ConsoleError (''Error during download. '' @ e)) w)
      | StreamEnded \<Rightarrow> (Resolved JSUndefined, emit (ConsoleLog ''Download complete.'') w))"

text \<open>
  The destination stream is created first and the request is issued next, before the
  file of the stream can be opened. An \<^verbatim>\<open>error\<close> of the destination has no listener: the
  process ends, and the promise never settles.
\<close>

definition downloadFileFromDrive :: "env \<Rightarrow> string \<Rightarrow> string \<Rightarrow> world \<Rightarrow> js_value outcome \<times> world" where
  "downloadFileFromDrive env fileId fileName w =
     (let w1 = emit (ConsoleLog (''Downloading '' @ fileName @ ''...'')) w;
          w2 = open_later fileName (emit (CreateWriteStream fileName) w1);
          w3 = emit (DriveGet fileId) w2
      in case dest_result env of
           DestOpened \<Rightarrow> download_request env fileId (complete_open fileName w3)
         | DestOpensLate \<Rightarrow> download_request env fileId w3
         | DestError message written \<Rightarrow>
             (Never,
              emit (UncaughtException message)
                (if written then complete_open fileName w3 else w3)))"

text \<open>
  \<^verbatim>\<open>String.prototype.replace\<close> with a string pattern: the first occurrence of the
  pattern is replaced, the rest of the string is left as it is.
\<close>

fun replace_first :: "string \<Rightarrow> string \<Rightarrow> string \<Rightarrow> string" where
  "replace_first pat rep [] = (if pat = [] then rep else [])"
| "replace_first pat rep (c # cs) =
     (if prefix pat (c # cs) then rep @ drop (length pat) (c # cs)
      else c # replace_first pat rep cs)"

definition create_files :: "string list \<Rightarrow> world \<Rightarrow> world" where
  "create_files ps w = w\<lparr>fs_files := fs_files w \<union> set ps\<rparr>"

text \<open>
  The listeners for \<^verbatim>\<open>close\<close> and \<^verbatim>\<open>error\<close> are on the extractor; the stream that reads
  the archive has none.
\<close>

definition unzipRestoreFile :: "env \<Rightarrow> string \<Rightarrow> world \<Rightarrow> string outcome \<times> world" where
  "unzipRestoreFile env zipFile w =
     (let sqlFile = replace_first ''.zip'' [] zipFile;
          w1 = emit (ConsoleLog (''Unzipping '' @ zipFile @ ''...'')) w;
          w2 = emit (CreateReadStream zipFile) w1;
          w3 = create_files (unzip_written env) (emit (UnzipExtract zipFile ''.'') w2)
      in case unzip_result env of
           ExtractClosed \<Rightarrow> (Resolved sqlFile, emit (ConsoleLog (''Unzipped to '' @ sqlFile @ ''.'')) w3)
         | ExtractError e \<Rightarrow> (Rejected e, emit (ConsoleError (''Unzip failed. '' @ e)) w3)
         | ReadError e \<Rightarrow> (Never, emit (UncaughtException e) w3))"

definition importDatabase :: "config \<Rightarrow> env \<Rightarrow> string \<Rightarrow> world \<Rightarrow> js_value outcome \<times> world" where
  "importDatabase cfg env sqlFile w =
     (let w1 = emit (ConsoleLog (''Restoring database from '' @ sqlFile @ ''...'')) w;
          w2 = emit (Exec (importCmd cfg sqlFile)) w1
      in case exec_error (mysql_result env) of
           Some message \<Rightarrow>
             (Rejected (''Database restore failed: '' @ message),
              emit (ConsoleError (''Database restore failed: '' @ exec_stderr (mysql_result env))) w2)
         | None \<Rightarrow>
             (Resolved JSUndefined, emit (ConsoleLog ''Database restored successfully.'') w2))"

subsection \<open>Cleanup and the two pipelines (lines 179-261)\<close>

text \<open>The body of the \<^verbatim>\<open>forEach\<close> of \<^verbatim>\<open>cleanup\<close>, with its try and catch.\<close>

definition cleanup_file :: "env \<Rightarrow> string \<Rightarrow> world \<Rightarrow> world" where
  "cleanup_file env file w =
     (if file \<in> fs_files w then
        (case unlink_error env file of
           None \<Rightarrow> emit (ConsoleLog (''   - Deleted: '' @ file)) (remove_file file (emit (UnlinkSync file) w))
         | Some message \<Rightarrow>
             emit (ConsoleError (''   - Failed to delete '' @ file @ '': '' @ message))
               (emit (UnlinkSync file) w))
      else w)"

definition cleanup :: "env \<Rightarrow> string list \<Rightarrow> world \<Rightarrow> world" where
  "cleanup env files w =
     fold (cleanup_file env) files
       (emit (ConsoleLog ''Cleaning up temporary files...'') (emit (CleanupCalled files) w))"

text \<open>\<^verbatim>\<open>new Date().toISOString().replace(/[:.]/g, '-')\<close>\<close>

definition timestamp :: "env \<Rightarrow> string" where
  "timestamp env = map (\<lambda>c. if c = CHR '':'' \<or> c = CHR ''.'' then CHR ''-'' else c) (now_iso env)"

definition backup_dumpFile :: "config \<Rightarrow> env \<Rightarrow> string" where
  "backup_dumpFile cfg env = ''backup-'' @ DB_NAME cfg @ ''-'' @ timestamp env @ ''.sql''"

definition backup_zipFile :: "config \<Rightarrow> env \<Rightarrow> string" where
  "backup_zipFile cfg env = backup_dumpFile cfg env @ ''.zip''"

text \<open>
  The \<^verbatim>\<open>try\<close> block of \<^verbatim>\<open>runBackupProcess\<close>: an \<^verbatim>\<open>await\<close> that rejects leaves it for the
  \<^verbatim>\<open>catch\<close> block; an \<^verbatim>\<open>await\<close> that never settles is where the process has ended.
\<close>

definition backup_try :: "config \<Rightarrow> env \<Rightarrow> world \<Rightarrow> unit outcome \<times> world" where
  "backup_try cfg env w =
     (case dumpDatabase cfg env (backup_dumpFile cfg env) w of
        (Rejected e, w1) \<Rightarrow> (Rejected e, w1)
      | (Never, w1) \<Rightarrow> (Never, w1)
      | (Resolved u, w1) \<Rightarrow>
          (case zipFileFunc env (backup_dumpFile cfg env) (backup_zipFile cfg env) w1 of
             (Rejected e, w2) \<Rightarrow> (Rejected e, w2)
           | (Never, w2) \<Rightarrow> (Never, w2)
           | (Resolved u, w2) \<Rightarrow>
               (case uploadToGoogleDrive cfg env (backup_zipFile cfg env) w2 of
                  (Rejected e, w3) \<Rightarrow> (Rejected e, w3)
                | (Never, w3) \<Rightarrow> (Never, w3)
                | (Resolved u, w3) \<Rightarrow>
                    (Resolved (), emit (ConsoleLog ''Backup completed successfully!'') w3))))"

text \<open>
  The \<^verbatim>\<open>try\<close> block followed by the \<^verbatim>\<open>catch\<close> block: the world the \<^verbatim>\<open>finally\<close> block
  starts in or, when the process has ended in the \<^verbatim>\<open>try\<close> block, the world it has ended in.
\<close>

definition backup_try_catch :: "config \<Rightarrow> env \<Rightarrow> world \<Rightarrow> world" where
  "backup_try_catch cfg env w =
     (case backup_try cfg env w of
        (Rejected message, w1) \<Rightarrow> (emit (ConsoleError (''Backup failed: '' @ message)) w1)\<lparr>exitCode := 1\<rparr>
      | (Resolved u, w1) \<Rightarrow> w1
      | (Never, w1) \<Rightarrow> w1)"

text \<open>
  The \<^verbatim>\<open>finally\<close> block runs after the \<^verbatim>\<open>try\<close> and \<^verbatim>\<open>catch\<close> blocks, and then the promise
  of \<^verbatim>\<open>runBackupProcess\<close> resolves; it does not run when the process has ended before.
\<close>

definition runBackupProcess :: "config \<Rightarrow> env \<Rightarrow> world \<Rightarrow> js_value outcome \<times> world" where
  "runBackupProcess cfg env w =
     (case fst (backup_try cfg env w) of
        Never \<Rightarrow> (Never, backup_try_catch cfg env w)
      | Rejected message \<Rightarrow>
          (Resolved JSUndefined,
           cleanup env [backup_dumpFile cfg env, backup_zipFile cfg env] (backup_try_catch cfg env w))
      | Resolved u \<Rightarrow>
          (Resolved JSUndefined,
           cleanup env [backup_dumpFile cfg env, backup_zipFile cfg env] (backup_try_catch cfg env w)))"

text \<open>
  The two prompts of the restore pipeline. The list prompt gives back one of the entries
  it offers; an answer that is none of them is treated as a prompt that rejects. The
  confirm prompt gives back its default, \<^verbatim>\<open>false\<close>, when the user just accepts it.
\<close>

definition choice_label :: "env \<Rightarrow> drive_file \<Rightarrow> string" where
  "choice_label env f = file_name f @ '' (Created: '' @ to_locale env (createdTime f) @ '')''"

definition prompt_fileToRestore :: "env \<Rightarrow> drive_file list \<Rightarrow> world \<Rightarrow> drive_file outcome \<times> world" where
  "prompt_fileToRestore env files w =
     (let w1 = emit (PromptList ''Select a backup to restore:'' (map (choice_label env) files)) w
      in case select_answer env of
           Inl e \<Rightarrow> (Rejected e, w1)
         | Inr i \<Rightarrow> if i < length files then (Resolved (files ! i), w1)
                    else (Rejected ''no such choice'', w1))"

text \<open>The message of the confirm prompt; \<open>CHR 0x22\<close> is the double quote, \<open>CHR 0x0A\<close> the line break.\<close>

definition confirm_message :: "config \<Rightarrow> drive_file \<Rightarrow> string" where
  "confirm_message cfg fileToRestore =
     ''ARE YOU SURE you want to restore from '' @ [CHR 0x22] @ file_name fileToRestore @
     [CHR 0x22] @ ''?'' @ [CHR 0x0A] @ ''  This will OVERWRITE the current '' @ [CHR 0x22] @
     DB_NAME cfg @ [CHR 0x22] @ '' database.''"

definition prompt_confirm :: "config \<Rightarrow> env \<Rightarrow> drive_file \<Rightarrow> world \<Rightarrow> bool outcome \<times> world" where
  "prompt_confirm cfg env fileToRestore w =
     (let w1 = emit (PromptConfirm (confirm_message cfg fileToRestore) False) w
      in case confirm_answer env of
           Inl e \<Rightarrow> (Rejected e, w1)
         | Inr None \<Rightarrow> (Resolved False, w1)
         | Inr (Some b) \<Rightarrow> (Resolved b, w1))"

text \<open>
  The \<^verbatim>\<open>try\<close> block of \<^verbatim>\<open>runRestoreProcess\<close>. Besides how it ends (\<open>Resolved ()\<close> also for
  the two \<^verbatim>\<open>return\<close> statements) it gives the values the variables \<^verbatim>\<open>downloadedZipFile\<close>
  and \<^verbatim>\<open>extractedSqlFile\<close> hold when it is left; both start as the empty string.
\<close>

definition restore_try :: "config \<Rightarrow> env \<Rightarrow> world \<Rightarrow> unit outcome \<times> (string \<times> string) \<times> world" where
  "restore_try cfg env w =
     (case listBackupsFromDrive cfg env w of
        (Rejected e, w1) \<Rightarrow> (Rejected e, ([], []), w1)
      | (Never, w1) \<Rightarrow> (Never, ([], []), w1)
      | (Resolved files, w1) \<Rightarrow>
          if length files = 0
          then (Resolved (), ([], []),
                emit (ConsoleLog ''No backup files found in the specified Google Drive folder.'') w1)
          else
            (case prompt_fileToRestore env files w1 of
               (Rejected e, w2) \<Rightarrow> (Rejected e, ([], []), w2)
             | (Never, w2) \<Rightarrow> (Never, ([], []), w2)
             | (Resolved fileToRestore, w2) \<Rightarrow>
                 (case prompt_confirm cfg env fileToRestore w2 of
                    (Rejected e, w3) \<Rightarrow> (Rejected e, ([], []), w3)
                  | (Never, w3) \<Rightarrow> (Never, ([], []), w3)
                  | (Resolved confirm, w3) \<Rightarrow>
                      if \<not> confirm
                      then (Resolved (), ([], []), emit (ConsoleLog ''Restore cancelled.'') w3)
                      else
                        (let downloadedZipFile = file_name fileToRestore in
                         case downloadFileFromDrive env (file_id fileToRestore) downloadedZipFile w3 of
                           (Rejected e, w4) \<Rightarrow> (Rejected e, (downloadedZipFile, []), w4)
                         | (Never, w4) \<Rightarrow> (Never, (downloadedZipFile, []), w4)
                         | (Resolved u, w4) \<Rightarrow>
                             (case unzipRestoreFile env downloadedZipFile w4 of
                                (Rejected e, w5) \<Rightarrow> (Rejected e, (downloadedZipFile, []), w5)
                              | (Never, w5) \<Rightarrow> (Never, (downloadedZipFile, []), w5)
                              | (Resolved extractedSqlFile, w5) \<Rightarrow>
                                  (case importDatabase cfg env extractedSqlFile w5 of
                                     (Rejected e, w6) \<Rightarrow>
                                       (Rejected e, (downloadedZipFile, extractedSqlFile), w6)
                                   | (Never, w6) \<Rightarrow>
                                       (Never, (downloadedZipFile, extractedSqlFile), w6)
                                   | (Resolved u, w6) \<Rightarrow>
                                       (Resolved (), (downloadedZipFile, extractedSqlFile),
                                        emit (ConsoleLog ''Restore completed successfully!'') w6)))))))"

text \<open>
  The \<^verbatim>\<open>try\<close> and \<^verbatim>\<open>catch\<close> blocks: the variables and the world the \<^verbatim>\<open>finally\<close> block
  starts with or, when the process has ended in the \<^verbatim>\<open>try\<close> block, those it has ended with.
\<close>

definition restore_try_catch :: "config \<Rightarrow> env \<Rightarrow> world \<Rightarrow> (string \<times> string) \<times> world" where
  "restore_try_catch cfg env w =
     (case restore_try cfg env w of
        (Rejected message, vars, w1) \<Rightarrow>
          (vars, (emit (ConsoleError (''Restore failed: '' @ message)) w1)\<lparr>exitCode := 1\<rparr>)
      | (Resolved u, vars, w1) \<Rightarrow> (vars, w1)
      | (Never, vars, w1) \<Rightarrow> (vars, w1))"

text \<open>
  \<^verbatim>\<open>cleanup([downloadedZipFile, extractedSqlFile].filter(Boolean))\<close> in the \<^verbatim>\<open>finally\<close>
  block: the empty string is dropped. The block does not run when the process has ended
  before.
\<close>

definition restore_cleanup :: "config \<Rightarrow> env \<Rightarrow> world \<Rightarrow> world" where
  "restore_cleanup cfg env w =
     (case restore_try_catch cfg env w of
        ((downloadedZipFile, extractedSqlFile), w1) \<Rightarrow>
          cleanup env (filter (\<lambda>s. s \<noteq> []) [downloadedZipFile, extractedSqlFile]) w1)"

definition runRestoreProcess :: "config \<Rightarrow> env \<Rightarrow> world \<Rightarrow> js_value outcome \<times> world" where
  "runRestoreProcess cfg env w =
     (case fst (restore_try cfg env w) of
        Never \<Rightarrow> (Never, snd (restore_try_catch cfg env w))
      | Rejected message \<Rightarrow> (Resolved JSUndefined, restore_cleanup cfg env w)
      | Resolved u \<Rightarrow> (Resolved JSUndefined, restore_cleanup cfg env w))"

subsection \<open>The menu and the process (lines 268-305)\<close>

text \<open>
  How \<^verbatim>\<open>showMainMenu\<close> is left when it does not reject: it returns, or \<^verbatim>\<open>process.exit\<close>
  ends the process, or the process has ended by an uncaught exception.
\<close>

datatype completion = Returned | Exited nat | Died

definition menu_message :: string where
  "menu_message = ''What do you want to do?''"

text \<open>The \<^verbatim>\<open>switch\<close> awaits the chosen pipeline and then leaves the function.\<close>

definition after_pipeline :: "js_value outcome \<times> world \<Rightarrow> (error + completion) \<times> world" where
  "after_pipeline r =
     (case r of
        (Resolved u, w) \<Rightarrow> (Inr Returned, w)
      | (Rejected e, w) \<Rightarrow> (Inl e, w)
      | (Never, w) \<Rightarrow> (Inr Died, w))"

definition showMainMenu :: "config \<Rightarrow> env \<Rightarrow> world \<Rightarrow> (error + completion) \<times> world" where
  "showMainMenu cfg env w =
     (let w1 = emit ConsoleClear w;
          w2 = emit (ConsoleLog ''===================================='') w1;
          w3 = emit (ConsoleLog ''   Database Backup & Restore Tool   '') w2;
          w4 = emit (ConsoleLog ''===================================='') w3;
          w5 = emit (PromptList menu_message
                 [''1. Backup Database to Google Drive'',
                  ''2. Restore Database from Google Drive'', ''Exit'']) w4
      in case menu_answer env of
           Inl e \<Rightarrow> (Inl e, w5)
         | Inr Backup \<Rightarrow> after_pipeline (runBackupProcess cfg env w5)
         | Inr Restore \<Rightarrow> after_pipeline (runRestoreProcess cfg env w5)
         | Inr ExitMenu \<Rightarrow> (Inr (Exited 0), emit (ProcessExit 0) (emit (ConsoleLog ''Goodbye!'') w5)))"

text \<open>
  The whole module: the validation of the environment throws before anything else runs;
  otherwise \<^verbatim>\<open>showMainMenu()\<close> is called once, its rejection is caught and ends the process
  with status 1, and when it returns the process ends with \<^verbatim>\<open>process.exitCode\<close> once
  nothing is left to run. A process that an uncaught exception has ended has status 1. The
  result is the final world and the exit status of the process.
\<close>

definition main :: "environ \<Rightarrow> env \<Rightarrow> world \<Rightarrow> world \<times> nat" where
  "main penv env w =
     (case load_config penv of
        Inl message \<Rightarrow> (w, 1)
      | Inr cfg \<Rightarrow>
          (case showMainMenu cfg env w of
             (Inl e, w1) \<Rightarrow>
               (emit (ProcessExit 1) (emit (ConsoleError (''An unexpected error occurred: '' @ e)) w1), 1)
           | (Inr (Exited n), w1) \<Rightarrow> (w1, n)
           | (Inr Died, w1) \<Rightarrow> (w1, 1)
           | (Inr Returned, w1) \<Rightarrow> (drain_pending w1, exitCode w1)))"

subsection \<open>Reading a trace\<close>

text \<open>The events a run added to the trace it started with.\<close>

definition new_events :: "world \<Rightarrow> world \<Rightarrow> event list" where
  "new_events w w' = drop (length (trace w)) (trace w')"

fun cleanup_args :: "event \<Rightarrow> string list list" where
  "cleanup_args (CleanupCalled ps) = [ps]"
| "cleanup_args e = []"

text \<open>The arguments of the calls of \<^verbatim>\<open>cleanup\<close>, one entry per call.\<close>

definition cleanup_calls :: "event list \<Rightarrow> string list list" where
  "cleanup_calls evs = concat (map cleanup_args evs)"

fun unlink_arg :: "event \<Rightarrow> string list" where
  "unlink_arg (UnlinkSync p) = [p]"
| "unlink_arg e = []"

text \<open>The paths \<^verbatim>\<open>fs.unlinkSync\<close> was called on, in order.\<close>

definition unlink_attempts :: "event list \<Rightarrow> string list" where
  "unlink_attempts evs = concat (map unlink_arg evs)"

text \<open>What \<^verbatim>\<open>cleanup\<close> does after it has been entered: deletions and console output.\<close>

fun is_cleanup_output :: "event \<Rightarrow> bool" where
  "is_cleanup_output (UnlinkSync p) = True"
| "is_cleanup_output (ConsoleLog m) = True"
| "is_cleanup_output (ConsoleError m) = True"
| "is_cleanup_output e = False"

subsection \<open>A concrete run\<close>

text \<open>
  A configuration, a world with no files and an environment in which every collaborator
  succeeds; the concrete instances of the theorems below are variations of it.
\<close>

definition example_penv :: environ where
  "example_penv = [''DB_HOST'' \<mapsto> ''localhost'', ''DB_USER'' \<mapsto> ''root'', ''DB_PASSWORD'' \<mapsto> [],
     ''DB_NAME'' \<mapsto> ''shop'', ''GDRIVE_CLIENT_EMAIL'' \<mapsto> ''svc@example.com'',
     ''GDRIVE_PRIVATE_KEY'' \<mapsto> ''key'', ''GDRIVE_FOLDER_ID'' \<mapsto> ''folder1'']"

definition example_cfg :: config where
  "example_cfg = \<lparr>DB_HOST = ''localhost'', DB_USER = ''root'', DB_PASSWORD = [],
     DB_NAME = ''shop'', GDRIVE_CLIENT_EMAIL = ''svc@example.com'',
     GDRIVE_PRIVATE_KEY = ''key'', GDRIVE_FOLDER_ID = ''folder1''\<rparr>"

definition example_world :: world where
  "example_world = \<lparr>fs_files = {}, pending_opens = [], trace = [], exitCode = 0\<rparr>"

definition example_backups :: "drive_file list" where
  "example_backups =
     [\<lparr>file_id = ''id2'', file_name = ''backup-shop-2024-01-02.sql.zip'', createdTime = ''2024-01-02''\<rparr>,
      \<lparr>file_id = ''id1'', file_name = ''backup-shop-2024-01-01.sql.zip'', createdTime = ''2024-01-01''\<rparr>]"

definition example_env :: env where
  "example_env = \<lparr>now_iso = ''2024-01-01T00:00:00.000Z'', to_locale = (\<lambda>t. t),
     mysqldump_result = \<lparr>exec_error = None, exec_stdout = [], exec_stderr = []\<rparr>,
     mysqldump_redirected = True,
     archive_result = OutputClosed 1234,
     upload_result = Inr \<lparr>created_id = ''id3'', created_name = ''n'', webViewLink = ''l''\<rparr>,
     list_result = Inr example_backups,
     menu_answer = Inr Backup,
     select_answer = Inr 1,
     confirm_answer = Inr (Some True),
     dest_result = DestOpened,
     get_result = StreamEnded,
     unzip_written = [''backup-shop-2024-01-01.sql''],
     unzip_result = ExtractClosed,
     mysql_result = \<lparr>exec_error = None, exec_stdout = [], exec_stderr = []\<rparr>,
     unlink_error = (\<lambda>p. None)\<rparr>"

text \<open>Whether the downloaded file exists when the download stage is left.\<close>

fun dest_file_exists :: "dest_outcome \<Rightarrow> bool" where
  "dest_file_exists DestOpened = True"
| "dest_file_exists DestOpensLate = False"
| "dest_file_exists (DestError m written) = written"

text \<open>Whether the archive file exists when the pack stage is left.\<close>

fun archive_file_exists :: "pack_outcome \<Rightarrow> bool" where
  "archive_file_exists (OutputClosed n) = True"
| "archive_file_exists (ArchiveError m opened) = opened"
| "archive_file_exists (OutputError m written) = written"

text \<open>The calls of the pack and upload stages.\<close>

fun is_pack_or_upload :: "event \<Rightarrow> bool" where
  "is_pack_or_upload (CreateWriteStream p) = True"
| "is_pack_or_upload (ArchiveFile p n) = True"
| "is_pack_or_upload (CreateReadStream p) = True"
| "is_pack_or_upload (DriveCreate n f) = True"
| "is_pack_or_upload e = False"

text \<open>The example with a dump tool that fails.\<close>

definition access_denied_env :: env where
  "access_denied_env = example_env\<lparr>mysqldump_result :=
     \<lparr>exec_error = Some ''Command failed'', exec_stdout = [], exec_stderr = ''Access denied''\<rparr>\<rparr>"

text \<open>The two kinds of prompt, and the calls of the download, unpack and import stages.\<close>

fun is_prompt :: "event \<Rightarrow> bool" where
  "is_prompt (PromptList m cs) = True"
| "is_prompt (PromptConfirm m d) = True"
| "is_prompt e = False"

fun is_restore_action :: "event \<Rightarrow> bool" where
  "is_restore_action (DriveGet i) = True"
| "is_restore_action (CreateWriteStream p) = True"
| "is_restore_action (CreateReadStream p) = True"
| "is_restore_action (UnzipExtract z d) = True"
| "is_restore_action (Exec c) = True"
| "is_restore_action e = False"

text \<open>The example with an empty remote folder, and with a user who accepts the default of the confirm prompt.\<close>

definition empty_folder_env :: env where
  "empty_folder_env = example_env\<lparr>list_result := Inr [], menu_answer := Inr Restore\<rparr>"

definition declining_env :: env where
  "declining_env = example_env\<lparr>confirm_answer := Inr None, menu_answer := Inr Restore\<rparr>"

text \<open>
  The example with an archive whose extraction fails after the dump file has been
  written, and with a download request that is rejected at once, before the file of the
  destination stream is opened.
\<close>

definition partial_unzip_env :: env where
  "partial_unzip_env = example_env\<lparr>unzip_result := ExtractError ''invalid signature'',
     menu_answer := Inr Restore\<rparr>"

definition rejected_get_env :: env where
  "rejected_get_env = example_env\<lparr>get_result := GetRejected ''socket hang up'',
     dest_result := DestOpensLate, menu_answer := Inr Restore\<rparr>"

text \<open>The example with a download whose destination cannot be written.\<close>

definition dest_error_env :: env where
  "dest_error_env = example_env\<lparr>dest_result := DestError ''ENOSPC: no space left on device'' True,
     menu_answer := Inr Restore\<rparr>"



text \<open>The prompt of the main menu.\<close>

fun menu_choices :: "event \<Rightarrow> string list list" where
  "menu_choices (PromptList m cs) = (if m = menu_message then [cs] else [])"
| "menu_choices e = []"

text \<open>The choices offered by the prompts of the main menu, one entry per prompt.\<close>

definition menu_prompts :: "event list \<Rightarrow> string list list" where
  "menu_prompts evs = concat (map menu_choices evs)"

text \<open>
  The arguments a command line is split into at its blanks (as the shell splits a line
  that has no quoting in it): \<open>fields\<close> cuts the line at every blank, \<open>shell_words\<close>
  drops the empty pieces that two blanks in a row leave.
\<close>

fun fields :: "string \<Rightarrow> string list" where
  "fields [] = [[]]"
| "fields (c # cs) =
     (if c = CHR '' '' then [] # fields cs
      else (case fields cs of [] \<Rightarrow> [[c]] | w # ws \<Rightarrow> (c # w) # ws))"

definition shell_words :: "string \<Rightarrow> string list" where
  "shell_words cmd = filter (\<lambda>w. w \<noteq> []) (fields cmd)"

text \<open>A configuration whose database name contains the text \<^verbatim>\<open>.zip\<close>.\<close>

definition zipcodes_cfg :: config where
  "zipcodes_cfg = example_cfg\<lparr>DB_NAME := ''geo.zipcodes''\<rparr>"

section \<open>Properties\<close>

subsection \<open>The effect of each function on the world\<close>

declare dec.simps [simp del]

lemma emit_simps [simp]:
  "trace (emit e w) = trace w @ [e]"
  "fs_files (emit e w) = fs_files w"
  "exitCode (emit e w) = exitCode w"
  by (simp_all add: emit_def)

lemma create_file_simps [simp]:
  "trace (create_file p w) = trace w"
  "fs_files (create_file p w) = insert p (fs_files w)"
  "exitCode (create_file p w) = exitCode w"
  by (simp_all add: create_file_def)

lemma remove_file_simps [simp]:
  "trace (remove_file p w) = trace w"
  "fs_files (remove_file p w) = fs_files w - {p}"
  "exitCode (remove_file p w) = exitCode w"
  by (simp_all add: remove_file_def)

lemma create_files_simps [simp]:
  "trace (create_files ps w) = trace w"
  "fs_files (create_files ps w) = fs_files w \<union> set ps"
  "exitCode (create_files ps w) = exitCode w"
  by (simp_all add: create_files_def)

lemma open_later_simps [simp]:
  "trace (open_later p w) = trace w"
  "fs_files (open_later p w) = fs_files w"
  "exitCode (open_later p w) = exitCode w"
  "pending_opens (open_later p w) = pending_opens w @ [p]"
  by (simp_all add: open_later_def)

lemma complete_open_simps [simp]:
  "trace (complete_open p w) = trace w"
  "fs_files (complete_open p w) = insert p (fs_files w)"
  "exitCode (complete_open p w) = exitCode w"
  "pending_opens (complete_open p w) = removeAll p (pending_opens w)"
  by (simp_all add: complete_open_def)

lemma drain_pending_simps [simp]:
  "trace (drain_pending w) = trace w"
  "fs_files (drain_pending w) = fs_files w \<union> set (pending_opens w)"
  "exitCode (drain_pending w) = exitCode w"
  by (simp_all add: drain_pending_def)

lemma pending_opens_simps [simp]:
  "pending_opens (emit e w) = pending_opens w"
  "pending_opens (create_file p w) = pending_opens w"
  "pending_opens (remove_file p w) = pending_opens w"
  "pending_opens (create_files ps w) = pending_opens w"
  by (simp_all add: emit_def create_file_def remove_file_def create_files_def)

lemma cleanup_calls_simps [simp]:
  "cleanup_calls [] = []"
  "cleanup_calls (e # es) = cleanup_args e @ cleanup_calls es"
  "cleanup_calls (xs @ ys) = cleanup_calls xs @ cleanup_calls ys"
  by (simp_all add: cleanup_calls_def)

lemma unlink_attempts_simps [simp]:
  "unlink_attempts [] = []"
  "unlink_attempts (e # es) = unlink_arg e @ unlink_attempts es"
  "unlink_attempts (xs @ ys) = unlink_attempts xs @ unlink_attempts ys"
  by (simp_all add: unlink_attempts_def)

lemma new_events_append: "trace w' = trace w @ evs \<Longrightarrow> new_events w w' = evs"
  by (simp add: new_events_def)

lemma dumpDatabase_fst:
  "fst (dumpDatabase cfg env f w) =
     (case exec_error (mysqldump_result env) of
        Some m \<Rightarrow> Rejected (''Database dump failed: '' @ m) | None \<Rightarrow> Resolved JSUndefined)"
  by (simp add: dumpDatabase_def Let_def split: option.split)

lemma dumpDatabase_trace:
  "trace (snd (dumpDatabase cfg env f w)) = trace w @
     [ConsoleLog (''Creating database dump for '' @ DB_NAME cfg @ ''...''), Exec (dumpCmd cfg f),
      (case exec_error (mysqldump_result env) of
         Some m \<Rightarrow> ConsoleError (''Database dump failed: '' @ exec_stderr (mysqldump_result env))
       | None \<Rightarrow> ConsoleLog ''Database dump created successfully.'')]"
  by (simp add: dumpDatabase_def Let_def split: option.split)

lemma dumpDatabase_world:
  "fs_files (snd (dumpDatabase cfg env f w)) =
     (if mysqldump_redirected env then insert f (fs_files w) else fs_files w)"
  "exitCode (snd (dumpDatabase cfg env f w)) = exitCode w"
  "pending_opens (snd (dumpDatabase cfg env f w)) = pending_opens w"
  by (simp_all add: dumpDatabase_def Let_def split: option.split)

lemma zipFileFunc_fst:
  "fst (zipFileFunc env d z w) =
     (case archive_result env of
        OutputClosed n \<Rightarrow> Resolved JSUndefined
      | ArchiveError m opened \<Rightarrow> Rejected (''Compression failed: '' @ m)
      | OutputError m written \<Rightarrow> Never)"
  by (simp add: zipFileFunc_def Let_def split: pack_outcome.split)

lemma zipFileFunc_trace:
  "trace (snd (zipFileFunc env d z w)) = trace w @
     [ConsoleLog (''Compressing '' @ d @ ''...''), CreateWriteStream z, ArchiveFile d d,
      (case archive_result env of
         OutputClosed n \<Rightarrow> ConsoleLog (''File compressed: '' @ z @ '' ('' @ dec n @ '' bytes)'')
       | ArchiveError m opened \<Rightarrow> ConsoleError (''Compression failed: '' @ m)
       | OutputError m written \<Rightarrow> UncaughtException m)]"
  by (simp add: zipFileFunc_def Let_def split: pack_outcome.split)

text \<open>Whether the archive file exists when \<^verbatim>\<open>zipFileFunc\<close> is left.\<close>

lemma zipFileFunc_world:
  "fs_files (snd (zipFileFunc env d z w)) =
     (case archive_result env of
        OutputClosed n \<Rightarrow> insert z (fs_files w)
      | ArchiveError m opened \<Rightarrow> if opened then insert z (fs_files w) else fs_files w
      | OutputError m written \<Rightarrow> if written then insert z (fs_files w) else fs_files w)"
  "exitCode (snd (zipFileFunc env d z w)) = exitCode w"
  by (simp_all add: zipFileFunc_def Let_def split: pack_outcome.split)

lemma uploadToGoogleDrive_fst:
  "fst (uploadToGoogleDrive cfg env z w) =
     (case upload_result env of Inl m \<Rightarrow> Rejected m | Inr d \<Rightarrow> Resolved JSUndefined)"
  by (simp add: uploadToGoogleDrive_def Let_def split: sum.split)

lemma uploadToGoogleDrive_trace:
  "trace (snd (uploadToGoogleDrive cfg env z w)) = trace w @
     ConsoleLog (''Uploading '' @ z @ '' to Google Drive...'') # CreateReadStream z #
     DriveCreate z (GDRIVE_FOLDER_ID cfg) #
     (case upload_result env of
        Inl m \<Rightarrow> []
      | Inr d \<Rightarrow> [ConsoleLog (''Upload successful: { fileId: '' @ created_id d @ '', name: '' @
                 created_name d @ '', link: '' @ webViewLink d @ '' }'')])"
  by (simp add: uploadToGoogleDrive_def Let_def split: sum.split)

lemma uploadToGoogleDrive_world:
  "fs_files (snd (uploadToGoogleDrive cfg env z w)) = fs_files w"
  "exitCode (snd (uploadToGoogleDrive cfg env z w)) = exitCode w"
  "pending_opens (snd (uploadToGoogleDrive cfg env z w)) = pending_opens w"
  by (simp_all add: uploadToGoogleDrive_def Let_def split: sum.split)

lemmas backup_stage_simps = dumpDatabase_fst dumpDatabase_trace dumpDatabase_world
  zipFileFunc_fst zipFileFunc_trace zipFileFunc_world
  uploadToGoogleDrive_fst uploadToGoogleDrive_trace uploadToGoogleDrive_world

subsection \<open>Cleanup\<close>

lemma cleanup_file_trace:
  "trace (cleanup_file env p w) = trace w @
     (if p \<in> fs_files w
      then [UnlinkSync p,
            (case unlink_error env p of
               None \<Rightarrow> ConsoleLog (''   - Deleted: '' @ p)
             | Some m \<Rightarrow> ConsoleError (''   - Failed to delete '' @ p @ '': '' @ m))]
      else [])"
  by (simp add: cleanup_file_def split: option.split)

lemma cleanup_file_world:
  "fs_files (cleanup_file env p w) =
     (if unlink_error env p = None then fs_files w - {p} else fs_files w)"
  "exitCode (cleanup_file env p w) = exitCode w"
  by (auto simp add: cleanup_file_def split: option.split)

lemma cleanup_file_events:
  "\<exists>es. trace (cleanup_file env p w) = trace w @ es \<and> list_all is_cleanup_output es \<and>
     cleanup_calls es = [] \<and> unlink_attempts es = (if p \<in> fs_files w then [p] else [])"
  by (cases "unlink_error env p") (simp_all add: cleanup_file_trace)

lemma fold_cleanup_file_exitCode: "exitCode (fold (cleanup_file env) ps w) = exitCode w"
  by (induction ps arbitrary: w) (simp_all add: cleanup_file_world)

lemma fold_cleanup_file_files:
  "fs_files (fold (cleanup_file env) ps w) = fs_files w - {p \<in> set ps. unlink_error env p = None}"
  by (induction ps arbitrary: w) (auto simp add: cleanup_file_world)

lemma fold_cleanup_file_trace:
  "\<exists>evs. trace (fold (cleanup_file env) ps w) = trace w @ evs \<and> list_all is_cleanup_output evs \<and>
      cleanup_calls evs = [] \<and> set (unlink_attempts evs) = set ps \<inter> fs_files w \<and>
      (distinct ps \<longrightarrow> unlink_attempts evs = filter (\<lambda>p. p \<in> fs_files w) ps)"
proof (induction ps arbitrary: w)
  case Nil
  then show ?case by simp
next
  case (Cons p ps)
  let ?w = "cleanup_file env p w"
  from Cons.IH [of ?w] obtain evs where
    tr: "trace (fold (cleanup_file env) ps ?w) = trace ?w @ evs" and
    out: "list_all is_cleanup_output evs" and cc: "cleanup_calls evs = []" and
    us: "set (unlink_attempts evs) = set ps \<inter> fs_files ?w" and
    un: "distinct ps \<longrightarrow> unlink_attempts evs = filter (\<lambda>q. q \<in> fs_files ?w) ps"
    by blast
  obtain es where es: "trace ?w = trace w @ es" "list_all is_cleanup_output es"
    "cleanup_calls es = []" "unlink_attempts es = (if p \<in> fs_files w then [p] else [])"
    using cleanup_file_events [of env p w] by blast
  have same: "distinct (p # ps) \<Longrightarrow>
      filter (\<lambda>q. q \<in> fs_files ?w) ps = filter (\<lambda>q. q \<in> fs_files w) ps"
    by (rule filter_cong) (auto simp add: cleanup_file_world)
  show ?case
  proof (intro exI conjI impI)
    show "trace (fold (cleanup_file env) (p # ps) w) = trace w @ (es @ evs)"
      using tr es(1) by simp
    show "list_all is_cleanup_output (es @ evs)" using out es(2) by simp
    show "cleanup_calls (es @ evs) = []" using cc es(3) by simp
    show "set (unlink_attempts (es @ evs)) = set (p # ps) \<inter> fs_files w"
      using us es(4) by (auto simp add: cleanup_file_world split: if_splits)
    show "unlink_attempts (es @ evs) = filter (\<lambda>p. p \<in> fs_files w) (p # ps)"
      if "distinct (p # ps)"
      using that un es(4) same by simp
  qed
qed

lemma cleanup_exitCode: "exitCode (cleanup env ps w) = exitCode w"
  by (simp add: cleanup_def fold_cleanup_file_exitCode)

lemma fold_cleanup_file_pending: "pending_opens (fold (cleanup_file env) ps w) = pending_opens w"
  by (induction ps arbitrary: w) (simp_all add: cleanup_file_def split: option.split)

lemma cleanup_pending: "pending_opens (cleanup env ps w) = pending_opens w"
  by (simp add: cleanup_def fold_cleanup_file_pending)

lemma cleanup_files:
  "fs_files (cleanup env ps w) = fs_files w - {p \<in> set ps. unlink_error env p = None}"
  by (simp add: cleanup_def fold_cleanup_file_files)

lemma cleanup_trace:
  "\<exists>evs. trace (cleanup env ps w) =
           trace w @ CleanupCalled ps # ConsoleLog ''Cleaning up temporary files...'' # evs \<and>
      list_all is_cleanup_output evs \<and> cleanup_calls evs = [] \<and>
      set (unlink_attempts evs) = set ps \<inter> fs_files w \<and>
      (distinct ps \<longrightarrow> unlink_attempts evs = filter (\<lambda>p. p \<in> fs_files w) ps)"
proof -
  let ?w = "emit (ConsoleLog ''Cleaning up temporary files...'') (emit (CleanupCalled ps) w)"
  from fold_cleanup_file_trace [of env ps ?w] obtain evs where
    "trace (fold (cleanup_file env) ps ?w) = trace ?w @ evs" "list_all is_cleanup_output evs"
    "cleanup_calls evs = []" "set (unlink_attempts evs) = set ps \<inter> fs_files ?w"
    "distinct ps \<longrightarrow> unlink_attempts evs = filter (\<lambda>p. p \<in> fs_files ?w) ps"
    by blast
  then show ?thesis by (simp add: cleanup_def)
qed

subsection \<open>The backup pipeline\<close>

lemma backup_files_differ: "backup_dumpFile cfg env \<noteq> backup_zipFile cfg env"
  by (simp add: backup_zipFile_def)

lemma backup_try_fst:
  "fst (backup_try cfg env w) =
     (case exec_error (mysqldump_result env) of
        Some m \<Rightarrow> Rejected (''Database dump failed: '' @ m)
      | None \<Rightarrow>
          (case archive_result env of
             OutputClosed n \<Rightarrow>
               (case upload_result env of Inl m \<Rightarrow> Rejected m | Inr d \<Rightarrow> Resolved ())
           | ArchiveError m opened \<Rightarrow> Rejected (''Compression failed: '' @ m)
           | OutputError m written \<Rightarrow> Never))"
  by (simp add: backup_try_def case_prod_beta backup_stage_simps
       split: sum.split option.split pack_outcome.split)

text \<open>The only way a backup run ends the process: the output stream of the pack fails.\<close>

lemma backup_try_never_iff:
  "fst (backup_try cfg env w) = Never \<longleftrightarrow>
     exec_error (mysqldump_result env) = None \<and> (\<exists>m b. archive_result env = OutputError m b)"
  by (simp add: backup_try_fst split: sum.split option.split pack_outcome.split)

lemma runBackupProcess_settled:
  "fst (backup_try cfg env w) \<noteq> Never \<Longrightarrow>
     runBackupProcess cfg env w =
       (Resolved JSUndefined,
        cleanup env [backup_dumpFile cfg env, backup_zipFile cfg env] (backup_try_catch cfg env w))"
  by (cases "fst (backup_try cfg env w)") (simp_all add: runBackupProcess_def)

lemma runBackupProcess_never:
  "fst (backup_try cfg env w) = Never \<Longrightarrow>
     runBackupProcess cfg env w = (Never, backup_try_catch cfg env w)"
  by (simp add: runBackupProcess_def)

lemma runBackupProcess_fst:
  "fst (runBackupProcess cfg env w) =
     (if fst (backup_try cfg env w) = Never then Never else Resolved JSUndefined)"
  by (cases "fst (backup_try cfg env w)") (simp_all add: runBackupProcess_def)

lemma backup_try_catch_trace:
  "\<exists>evs. trace (backup_try_catch cfg env w) = trace w @ evs \<and>
     cleanup_calls evs = [] \<and> unlink_attempts evs = []"
  by (simp add: backup_try_catch_def backup_try_def case_prod_beta backup_stage_simps
       split: sum.split option.split pack_outcome.split)

lemma backup_try_catch_files:
  "fs_files (backup_try_catch cfg env w) =
     fs_files w \<union> (if mysqldump_redirected env then {backup_dumpFile cfg env} else {}) \<union>
     (if exec_error (mysqldump_result env) = None \<and> archive_file_exists (archive_result env)
      then {backup_zipFile cfg env} else {})"
  by (simp add: backup_try_catch_def backup_try_def case_prod_beta backup_stage_simps
       split: sum.split option.split pack_outcome.split)

lemma runBackupProcess_events:
  assumes "fst (backup_try cfg env w) \<noteq> Never"
  shows "\<exists>e1 e2. new_events w (snd (runBackupProcess cfg env w)) =
       e1 @ CleanupCalled [backup_dumpFile cfg env, backup_zipFile cfg env] #
            ConsoleLog ''Cleaning up temporary files...'' # e2 \<and>
     trace (backup_try_catch cfg env w) = trace w @ e1 \<and>
     cleanup_calls e1 = [] \<and> unlink_attempts e1 = [] \<and>
     list_all is_cleanup_output e2 \<and> cleanup_calls e2 = [] \<and>
     unlink_attempts e2 = filter (\<lambda>p. p \<in> fs_files (backup_try_catch cfg env w))
        [backup_dumpFile cfg env, backup_zipFile cfg env]"
proof -
  let ?w1 = "backup_try_catch cfg env w"
  let ?ps = "[backup_dumpFile cfg env, backup_zipFile cfg env]"
  have d: "distinct ?ps" using backup_files_differ [of cfg env] by simp
  obtain e1 where e1: "trace ?w1 = trace w @ e1" "cleanup_calls e1 = []" "unlink_attempts e1 = []"
    using backup_try_catch_trace [of cfg env w] by blast
  obtain e2 where e2: "trace (cleanup env ?ps ?w1) =
      trace ?w1 @ CleanupCalled ?ps # ConsoleLog ''Cleaning up temporary files...'' # e2"
    "list_all is_cleanup_output e2" "cleanup_calls e2 = []"
    "unlink_attempts e2 = filter (\<lambda>p. p \<in> fs_files ?w1) ?ps"
    using cleanup_trace [of env ?ps ?w1] d by blast
  have "new_events w (snd (runBackupProcess cfg env w)) =
      e1 @ CleanupCalled ?ps # ConsoleLog ''Cleaning up temporary files...'' # e2"
    by (rule new_events_append) (simp add: runBackupProcess_settled [OF assms] e1 e2)
  then show ?thesis using e1 e2 by blast
qed

lemma backup_try_catch_exitCode:
  "exitCode (backup_try_catch cfg env w) =
     (if fst (backup_try cfg env w) = Resolved () \<or> fst (backup_try cfg env w) = Never
      then exitCode w else 1)"
  by (simp add: backup_try_catch_def backup_try_def case_prod_beta backup_stage_simps
       split: sum.split option.split pack_outcome.split)

lemma backup_try_catch_dump_failed:
  assumes "exec_error (mysqldump_result env) = Some m"
  shows "trace (backup_try_catch cfg env w) = trace w @
     [ConsoleLog (''Creating database dump for '' @ DB_NAME cfg @ ''...''),
      Exec (dumpCmd cfg (backup_dumpFile cfg env)),
      ConsoleError (''Database dump failed: '' @ exec_stderr (mysqldump_result env)),
      ConsoleError (''Backup failed: Database dump failed: '' @ m)]"
  using assms
  by (simp add: backup_try_catch_def backup_try_def case_prod_beta backup_stage_simps)

lemma cleanup_output_not_pack: "list_all is_cleanup_output es \<Longrightarrow> filter is_pack_or_upload es = []"
  by (induction es) (auto elim: is_cleanup_output.elims)

text \<open>
  A backup run comes to its end unless the dump succeeds and the output stream of the
  pack fails.
\<close>

lemma runBackupProcess_resolves_iff:
  "fst (runBackupProcess cfg env w) = Resolved JSUndefined \<longleftrightarrow>
     \<not> (exec_error (mysqldump_result env) = None \<and> (\<exists>m b. archive_result env = OutputError m b))"
  by (simp add: runBackupProcess_fst backup_try_never_iff)





text \<open>
  Claim C6. When the dump tool fails with diagnostic output on stderr, the backup run
  prints a dump error that contains the diagnostic text and a failure message of the
  pipeline, makes no call of the pack or upload stage (no archive is written, nothing is
  uploaded; the only file the run can have created is the dump file), and sets the exit
  code to 1, which is the exit status of the process when the run was chosen in the menu.
  The run comes to its end: nothing in it ends the process before.
\<close>

theorem dump_failure_short_circuits:
  assumes "exec_error (mysqldump_result env) = Some m"
    and "exec_stderr (mysqldump_result env) = d"
  shows "ConsoleError (''Database dump failed: '' @ d)
           \<in> set (new_events w (snd (runBackupProcess cfg env w))) \<and>
         ConsoleError (''Backup failed: Database dump failed: '' @ m)
           \<in> set (new_events w (snd (runBackupProcess cfg env w))) \<and>
         filter is_pack_or_upload (new_events w (snd (runBackupProcess cfg env w))) = [] \<and>
         fs_files (backup_try_catch cfg env w) \<subseteq> insert (backup_dumpFile cfg env) (fs_files w) \<and>
         exitCode (snd (runBackupProcess cfg env w)) = 1 \<and>
         fst (runBackupProcess cfg env w) = Resolved JSUndefined \<and>
         (load_config penv = Inr cfg \<and> menu_answer env = Inr Backup \<longrightarrow>
            snd (main penv env w) = 1)"
proof -
  have rejected: "fst (backup_try cfg env w) = Rejected (''Database dump failed: '' @ m)" for w
    using assms(1) by (simp add: backup_try_fst)
  have run: "runBackupProcess cfg env w =
      (Resolved JSUndefined,
       cleanup env [backup_dumpFile cfg env, backup_zipFile cfg env] (backup_try_catch cfg env w))"
    for w
    by (rule runBackupProcess_settled) (simp add: rejected)
  have settled: "fst (backup_try cfg env w) \<noteq> Never"
    by (simp add: rejected)
  obtain e1 e2 where ev: "new_events w (snd (runBackupProcess cfg env w)) =
       e1 @ CleanupCalled [backup_dumpFile cfg env, backup_zipFile cfg env] #
            ConsoleLog ''Cleaning up temporary files...'' # e2"
     "trace (backup_try_catch cfg env w) = trace w @ e1" "list_all is_cleanup_output e2"
    using runBackupProcess_events [OF settled] by blast
  from ev(2) backup_try_catch_dump_failed [OF assms(1), of cfg w]
  have e1: "e1 = [ConsoleLog (''Creating database dump for '' @ DB_NAME cfg @ ''...''),
      Exec (dumpCmd cfg (backup_dumpFile cfg env)),
      ConsoleError (''Database dump failed: '' @ d),
      ConsoleError (''Backup failed: Database dump failed: '' @ m)]"
    using assms(2) by simp
  have code: "exitCode (snd (runBackupProcess cfg env w)) = 1" for w
    by (simp add: run cleanup_exitCode backup_try_catch_exitCode rejected)
  have "snd (main penv env w) = 1" if "load_config penv = Inr cfg" "menu_answer env = Inr Backup"
    using that code
    by (simp add: main_def showMainMenu_def Let_def after_pipeline_def run cleanup_exitCode)
  moreover have "filter is_pack_or_upload (new_events w (snd (runBackupProcess cfg env w))) = []"
    using ev(1,3) e1 by (simp add: cleanup_output_not_pack)
  moreover have "fs_files (backup_try_catch cfg env w) \<subseteq> insert (backup_dumpFile cfg env) (fs_files w)"
    using assms(1) by (auto simp add: backup_try_catch_files)
  ultimately show ?thesis using ev(1) e1 code by (simp add: run)
qed

theorem dump_failure_short_circuits_witness:
  "exec_error (mysqldump_result access_denied_env) = Some ''Command failed'' \<and>
   exec_stderr (mysqldump_result access_denied_env) = ''Access denied'' \<and>
   load_config example_penv = Inr example_cfg \<and> menu_answer access_denied_env = Inr Backup \<and>
   ConsoleError ''Database dump failed: Access denied''
     \<in> set (new_events example_world
          (snd (runBackupProcess example_cfg access_denied_env example_world))) \<and>
   filter is_pack_or_upload
     (new_events example_world
        (snd (runBackupProcess example_cfg access_denied_env example_world))) = [] \<and>
   snd (main example_penv access_denied_env example_world) = 1"
  using dump_failure_short_circuits [of access_denied_env "''Command failed''" "''Access denied''"
     example_world example_cfg example_penv]
  by (simp add: access_denied_env_def example_env_def example_penv_def example_cfg_def
        load_config_def validate_env_def requiredEnvVars_def getenv_def)

subsection \<open>The restore pipeline\<close>

lemma listBackupsFromDrive_fst:
  "fst (listBackupsFromDrive cfg env w) =
     (case list_result env of Inl e \<Rightarrow> Rejected e | Inr files \<Rightarrow> Resolved files)"
  by (simp add: listBackupsFromDrive_def Let_def split: sum.split)

lemma listBackupsFromDrive_trace:
  "trace (snd (listBackupsFromDrive cfg env w)) =
     trace w @ [ConsoleLog ''Listing backups from Google Drive...'', DriveList (list_query cfg)]"
  by (simp add: listBackupsFromDrive_def Let_def split: sum.split)

lemma listBackupsFromDrive_world:
  "fs_files (snd (listBackupsFromDrive cfg env w)) = fs_files w"
  "exitCode (snd (listBackupsFromDrive cfg env w)) = exitCode w"
  "pending_opens (snd (listBackupsFromDrive cfg env w)) = pending_opens w"
  by (simp_all add: listBackupsFromDrive_def Let_def split: sum.split)

lemma prompt_fileToRestore_fst:
  "fst (prompt_fileToRestore env files w) =
     (case select_answer env of
        Inl e \<Rightarrow> Rejected e
      | Inr i \<Rightarrow> if i < length files then Resolved (files ! i) else Rejected ''no such choice'')"
  by (simp add: prompt_fileToRestore_def Let_def split: sum.split)

lemma prompt_fileToRestore_trace:
  "trace (snd (prompt_fileToRestore env files w)) =
     trace w @ [PromptList ''Select a backup to restore:'' (map (choice_label env) files)]"
  by (simp add: prompt_fileToRestore_def Let_def split: sum.split)

lemma prompt_fileToRestore_world:
  "fs_files (snd (prompt_fileToRestore env files w)) = fs_files w"
  "exitCode (snd (prompt_fileToRestore env files w)) = exitCode w"
  "pending_opens (snd (prompt_fileToRestore env files w)) = pending_opens w"
  by (simp_all add: prompt_fileToRestore_def Let_def split: sum.split)

lemma prompt_confirm_fst:
  "fst (prompt_confirm cfg env f w) =
     (case confirm_answer env of
        Inl e \<Rightarrow> Rejected e | Inr None \<Rightarrow> Resolved False | Inr (Some b) \<Rightarrow> Resolved b)"
  by (simp add: prompt_confirm_def Let_def split: sum.split option.split)

lemma prompt_confirm_trace:
  "trace (snd (prompt_confirm cfg env f w)) = trace w @ [PromptConfirm (confirm_message cfg f) False]"
  by (simp add: prompt_confirm_def Let_def split: sum.split option.split)

lemma prompt_confirm_world:
  "fs_files (snd (prompt_confirm cfg env f w)) = fs_files w"
  "exitCode (snd (prompt_confirm cfg env f w)) = exitCode w"
  "pending_opens (snd (prompt_confirm cfg env f w)) = pending_opens w"
  by (simp_all add: prompt_confirm_def Let_def split: sum.split option.split)

lemma download_request_fst:
  "fst (download_request env i w) =
     (case get_result env of
        GetRejected e \<Rightarrow> Rejected e | StreamFailed e \<Rightarrow> Rejected e
      | StreamEnded \<Rightarrow> Resolved JSUndefined)"
  by (simp add: download_request_def split: get_outcome.split)

lemma download_request_trace:
  "trace (snd (download_request env i w)) = trace w @
     (case get_result env of
        GetRejected e \<Rightarrow> []
      | StreamFailed e \<Rightarrow> [ConsoleError (''Error during download. '' @ e)]
      | StreamEnded \<Rightarrow> [ConsoleLog ''Download complete.''])"
  by (simp add: download_request_def split: get_outcome.split)

lemma download_request_world:
  "fs_files (snd (download_request env i w)) = fs_files w"
  "exitCode (snd (download_request env i w)) = exitCode w"
  "pending_opens (snd (download_request env i w)) = pending_opens w"
  by (simp_all add: download_request_def split: get_outcome.split)

lemma downloadFileFromDrive_fst:
  "fst (downloadFileFromDrive env i n w) =
     (case dest_result env of
        DestError m written \<Rightarrow> Never
      | DestOpened \<Rightarrow> fst (download_request env i w)
      | DestOpensLate \<Rightarrow> fst (download_request env i w))"
  by (simp add: downloadFileFromDrive_def Let_def download_request_fst split: dest_outcome.split)

lemma downloadFileFromDrive_trace:
  "trace (snd (downloadFileFromDrive env i n w)) = trace w @
     ConsoleLog (''Downloading '' @ n @ ''...'') # CreateWriteStream n # DriveGet i #
     (case dest_result env of
        DestError m written \<Rightarrow> [UncaughtException m]
      | DestOpened \<Rightarrow> new_events w (snd (download_request env i w))
      | DestOpensLate \<Rightarrow> new_events w (snd (download_request env i w)))"
  by (simp add: downloadFileFromDrive_def Let_def download_request_trace new_events_def
       split: dest_outcome.split)

text \<open>Whether the downloaded file exists, or is still to be opened, when the stage is left.\<close>

lemma downloadFileFromDrive_world:
  "fs_files (snd (downloadFileFromDrive env i n w)) =
     (if dest_file_exists (dest_result env) then insert n (fs_files w) else fs_files w)"
  "exitCode (snd (downloadFileFromDrive env i n w)) = exitCode w"
  by (simp_all add: downloadFileFromDrive_def Let_def download_request_world
       split: dest_outcome.split)

lemma downloadFileFromDrive_pending:
  "dest_result env = DestOpensLate \<Longrightarrow>
     pending_opens (snd (downloadFileFromDrive env i n w)) = pending_opens w @ [n]"
  by (simp add: downloadFileFromDrive_def Let_def download_request_world)

lemma unzipRestoreFile_fst:
  "fst (unzipRestoreFile env z w) =
     (case unzip_result env of
        ExtractClosed \<Rightarrow> Resolved (replace_first ''.zip'' [] z)
      | ExtractError e \<Rightarrow> Rejected e
      | ReadError e \<Rightarrow> Never)"
  by (simp add: unzipRestoreFile_def Let_def split: unzip_outcome.split)

lemma unzipRestoreFile_trace:
  "trace (snd (unzipRestoreFile env z w)) = trace w @
     [ConsoleLog (''Unzipping '' @ z @ ''...''), CreateReadStream z, UnzipExtract z ''.'',
      (case unzip_result env of
         ExtractClosed \<Rightarrow> ConsoleLog (''Unzipped to '' @ replace_first ''.zip'' [] z @ ''.'')
       | ExtractError e \<Rightarrow> ConsoleError (''Unzip failed. '' @ e)
       | ReadError e \<Rightarrow> UncaughtException e)]"
  by (simp add: unzipRestoreFile_def Let_def split: unzip_outcome.split)

lemma unzipRestoreFile_world:
  "fs_files (snd (unzipRestoreFile env z w)) = fs_files w \<union> set (unzip_written env)"
  "exitCode (snd (unzipRestoreFile env z w)) = exitCode w"
  "pending_opens (snd (unzipRestoreFile env z w)) = pending_opens w"
  by (simp_all add: unzipRestoreFile_def Let_def split: unzip_outcome.split)

lemma importDatabase_fst:
  "fst (importDatabase cfg env f w) =
     (case exec_error (mysql_result env) of
        Some m \<Rightarrow> Rejected (''Database restore failed: '' @ m) | None \<Rightarrow> Resolved JSUndefined)"
  by (simp add: importDatabase_def Let_def split: option.split)

lemma importDatabase_trace:
  "trace (snd (importDatabase cfg env f w)) = trace w @
     [ConsoleLog (''Restoring database from '' @ f @ ''...''), Exec (importCmd cfg f),
      (case exec_error (mysql_result env) of
         Some m \<Rightarrow> ConsoleError (''Database restore failed: '' @ exec_stderr (mysql_result env))
       | None \<Rightarrow> ConsoleLog ''Database restored successfully.'')]"
  by (simp add: importDatabase_def Let_def split: option.split)

lemma importDatabase_world:
  "fs_files (snd (importDatabase cfg env f w)) = fs_files w"
  "exitCode (snd (importDatabase cfg env f w)) = exitCode w"
  "pending_opens (snd (importDatabase cfg env f w)) = pending_opens w"
  by (simp_all add: importDatabase_def Let_def split: option.split)

lemmas restore_stage_simps = listBackupsFromDrive_fst listBackupsFromDrive_trace
  listBackupsFromDrive_world prompt_fileToRestore_fst prompt_fileToRestore_trace
  prompt_fileToRestore_world prompt_confirm_fst prompt_confirm_trace prompt_confirm_world
  downloadFileFromDrive_fst downloadFileFromDrive_trace downloadFileFromDrive_world
  download_request_fst download_request_trace new_events_def
  unzipRestoreFile_fst unzipRestoreFile_trace unzipRestoreFile_world
  importDatabase_fst importDatabase_trace importDatabase_world

lemmas restore_unfold = restore_try_catch_def restore_try_def case_prod_beta Let_def

lemmas restore_splits = sum.split option.split get_outcome.split dest_outcome.split
  unzip_outcome.split

lemma restore_try_catch_trace:
  "\<exists>evs. trace (snd (restore_try_catch cfg env w)) = trace w @ evs \<and>
     cleanup_calls evs = [] \<and> unlink_attempts evs = []"
  by (simp add: restore_unfold restore_stage_simps split: restore_splits)

lemma restore_cleanup_alt:
  "restore_cleanup cfg env w =
     cleanup env (filter (\<lambda>s. s \<noteq> [])
        [fst (fst (restore_try_catch cfg env w)), snd (fst (restore_try_catch cfg env w))])
       (snd (restore_try_catch cfg env w))"
  by (simp add: restore_cleanup_def case_prod_beta)

lemma runRestoreProcess_settled:
  "fst (restore_try cfg env w) \<noteq> Never \<Longrightarrow>
     runRestoreProcess cfg env w = (Resolved JSUndefined, restore_cleanup cfg env w)"
  by (cases "fst (restore_try cfg env w)") (simp_all add: runRestoreProcess_def)

lemma runRestoreProcess_never:
  "fst (restore_try cfg env w) = Never \<Longrightarrow>
     runRestoreProcess cfg env w = (Never, snd (restore_try_catch cfg env w))"
  by (simp add: runRestoreProcess_def)

lemma cleanup_Nil_trace:
  "trace (cleanup env [] w) =
     trace w @ [CleanupCalled [], ConsoleLog ''Cleaning up temporary files...'']"
  by (simp add: cleanup_def)

lemma restore_try_catch_empty:
  assumes "list_result env = Inr []"
  shows "fst (restore_try_catch cfg env w) = ([], [])"
    and "fst (restore_try cfg env w) = Resolved ()"
    and "trace (snd (restore_try_catch cfg env w)) = trace w @
      [ConsoleLog ''Listing backups from Google Drive...'', DriveList (list_query cfg),
       ConsoleLog ''No backup files found in the specified Google Drive folder.'']"
    and "fs_files (snd (restore_try_catch cfg env w)) = fs_files w"
    and "exitCode (snd (restore_try_catch cfg env w)) = exitCode w"
  using assms by (simp_all add: restore_unfold restore_stage_simps)

text \<open>
  Claim C7. When listing the remote folder gives no record, the restore run prints that
  there is nothing to restore and ends: its calls are the listing and a \<^verbatim>\<open>cleanup\<close> of no
  paths. No prompt is shown, nothing is downloaded, unpacked or imported, no file is
  created or deleted, and the exit code is left as it was, so the process does not end as
  a failure. The run comes to its end: nothing in it ends the process before.
\<close>

theorem empty_listing_ends_restore:
  assumes "list_result env = Inr []"
  shows "new_events w (snd (runRestoreProcess cfg env w)) =
           [ConsoleLog ''Listing backups from Google Drive...'', DriveList (list_query cfg),
            ConsoleLog ''No backup files found in the specified Google Drive folder.'',
            CleanupCalled [], ConsoleLog ''Cleaning up temporary files...''] \<and>
         filter is_prompt (new_events w (snd (runRestoreProcess cfg env w))) = [] \<and>
         filter is_restore_action (new_events w (snd (runRestoreProcess cfg env w))) = [] \<and>
         unlink_attempts (new_events w (snd (runRestoreProcess cfg env w))) = [] \<and>
         fs_files (snd (runRestoreProcess cfg env w)) = fs_files w \<and>
         exitCode (snd (runRestoreProcess cfg env w)) = exitCode w \<and>
         fst (runRestoreProcess cfg env w) = Resolved JSUndefined \<and>
         (load_config penv = Inr cfg \<and> menu_answer env = Inr Restore \<longrightarrow>
            snd (main penv env w) = exitCode w)"
proof -
  have run: "runRestoreProcess cfg env w =
      (Resolved JSUndefined, cleanup env [] (snd (restore_try_catch cfg env w)))" for w
    by (simp add: runRestoreProcess_def restore_cleanup_alt restore_try_catch_empty [OF assms])
  have ev: "new_events w (snd (runRestoreProcess cfg env w)) =
           [ConsoleLog ''Listing backups from Google Drive...'', DriveList (list_query cfg),
            ConsoleLog ''No backup files found in the specified Google Drive folder.'',
            CleanupCalled [], ConsoleLog ''Cleaning up temporary files...'']"
    by (rule new_events_append)
      (simp add: run cleanup_Nil_trace restore_try_catch_empty [OF assms])
  have fs: "fs_files (snd (runRestoreProcess cfg env w)) = fs_files w"
    by (simp add: run cleanup_files restore_try_catch_empty [OF assms])
  have code: "exitCode (snd (runRestoreProcess cfg env w)) = exitCode w" for w
    by (simp add: run cleanup_exitCode restore_try_catch_empty [OF assms])
  have "snd (main penv env w) = exitCode w"
    if "load_config penv = Inr cfg" "menu_answer env = Inr Restore"
    using that code
    by (simp add: main_def showMainMenu_def Let_def after_pipeline_def run cleanup_exitCode)
  then show ?thesis using fs code ev by (simp add: run)
qed

lemmas example_config_simps = example_penv_def example_cfg_def load_config_def validate_env_def
  requiredEnvVars_def getenv_def

theorem empty_listing_ends_restore_witness:
  "list_result empty_folder_env = Inr [] \<and>
   load_config example_penv = Inr example_cfg \<and> menu_answer empty_folder_env = Inr Restore \<and>
   filter is_prompt
     (new_events example_world (snd (runRestoreProcess example_cfg empty_folder_env example_world))) = [] \<and>
   fs_files (snd (runRestoreProcess example_cfg empty_folder_env example_world)) = {} \<and>
   snd (main example_penv empty_folder_env example_world) = 0"
  using empty_listing_ends_restore [where env = empty_folder_env and w = example_world
     and cfg = example_cfg and penv = example_penv]
  by (simp add: empty_folder_env_def example_env_def example_world_def example_config_simps)

lemma restore_try_catch_declined:
  assumes "list_result env = Inr files" and "files \<noteq> []"
    and "select_answer env = Inr i" and "i < length files"
    and "confirm_answer env = Inr None \<or> confirm_answer env = Inr (Some False)"
  shows "fst (restore_try_catch cfg env w) = ([], [])"
    and "fst (restore_try cfg env w) = Resolved ()"
    and "trace (snd (restore_try_catch cfg env w)) = trace w @
      [ConsoleLog ''Listing backups from Google Drive...'', DriveList (list_query cfg),
       PromptList ''Select a backup to restore:'' (map (choice_label env) files),
       PromptConfirm (confirm_message cfg (files ! i)) False,
       ConsoleLog ''Restore cancelled.'']"
    and "fs_files (snd (restore_try_catch cfg env w)) = fs_files w"
    and "exitCode (snd (restore_try_catch cfg env w)) = exitCode w"
  using assms by (auto simp add: restore_unfold restore_stage_simps)

text \<open>
  Claim C3. When the user declines the confirmation prompt, whose default answer is
  \<^verbatim>\<open>false\<close>, by answering no or by accepting the default, the restore run prints that it
  was cancelled and ends: after the two prompts its only call is a \<^verbatim>\<open>cleanup\<close> of no
  paths. Nothing is downloaded, unpacked or imported, no file is created or deleted, and
  the exit code is left as it was, so a process started with exit code 0 ends with status
  0 and not as a failure. The run comes to its end: nothing in it ends the process before.
\<close>

theorem declined_restore_is_cancelled:
  assumes "list_result env = Inr files" and "files \<noteq> []"
    and "select_answer env = Inr i" and "i < length files"
    and "confirm_answer env = Inr None \<or> confirm_answer env = Inr (Some False)"
  shows "new_events w (snd (runRestoreProcess cfg env w)) =
           [ConsoleLog ''Listing backups from Google Drive...'', DriveList (list_query cfg),
            PromptList ''Select a backup to restore:'' (map (choice_label env) files),
            PromptConfirm (confirm_message cfg (files ! i)) False,
            ConsoleLog ''Restore cancelled.'',
            CleanupCalled [], ConsoleLog ''Cleaning up temporary files...''] \<and>
         filter is_restore_action (new_events w (snd (runRestoreProcess cfg env w))) = [] \<and>
         unlink_attempts (new_events w (snd (runRestoreProcess cfg env w))) = [] \<and>
         fs_files (snd (runRestoreProcess cfg env w)) = fs_files w \<and>
         exitCode (snd (runRestoreProcess cfg env w)) = exitCode w \<and>
         fst (runRestoreProcess cfg env w) = Resolved JSUndefined \<and>
         (load_config penv = Inr cfg \<and> menu_answer env = Inr Restore \<and> exitCode w = 0 \<longrightarrow>
            snd (main penv env w) = 0)"
proof -
  note declined = restore_try_catch_declined [OF assms]
  have run: "runRestoreProcess cfg env w =
      (Resolved JSUndefined, cleanup env [] (snd (restore_try_catch cfg env w)))" for w
    by (simp add: runRestoreProcess_def restore_cleanup_alt declined)
  have ev: "new_events w (snd (runRestoreProcess cfg env w)) =
           [ConsoleLog ''Listing backups from Google Drive...'', DriveList (list_query cfg),
            PromptList ''Select a backup to restore:'' (map (choice_label env) files),
            PromptConfirm (confirm_message cfg (files ! i)) False,
            ConsoleLog ''Restore cancelled.'',
            CleanupCalled [], ConsoleLog ''Cleaning up temporary files...'']"
    by (rule new_events_append) (simp add: run cleanup_Nil_trace declined)
  have fs: "fs_files (snd (runRestoreProcess cfg env w)) = fs_files w"
    by (simp add: run cleanup_files declined)
  have code: "exitCode (snd (runRestoreProcess cfg env w)) = exitCode w" for w
    by (simp add: run cleanup_exitCode declined)
  have "snd (main penv env w) = 0"
    if "load_config penv = Inr cfg" "menu_answer env = Inr Restore" "exitCode w = 0"
    using that code
    by (simp add: main_def showMainMenu_def Let_def after_pipeline_def run cleanup_exitCode)
  then show ?thesis using fs code ev by (simp add: run)
qed

theorem declined_restore_is_cancelled_witness:
  "list_result declining_env = Inr example_backups \<and> example_backups \<noteq> [] \<and>
   select_answer declining_env = Inr 1 \<and> 1 < length example_backups \<and>
   confirm_answer declining_env = Inr None \<and>
   load_config example_penv = Inr example_cfg \<and> menu_answer declining_env = Inr Restore \<and>
   exitCode example_world = 0 \<and>
   filter is_restore_action
     (new_events example_world (snd (runRestoreProcess example_cfg declining_env example_world))) = [] \<and>
   fs_files (snd (runRestoreProcess example_cfg declining_env example_world)) = {} \<and>
   snd (main example_penv declining_env example_world) = 0"
  using declined_restore_is_cancelled [where env = declining_env and files = example_backups
     and i = 1 and cfg = example_cfg and penv = example_penv and w = example_world]
  by (simp add: declining_env_def example_env_def example_world_def example_backups_def
        example_config_simps)

text \<open>
  Claim C2 does not hold of the code. The \<^verbatim>\<open>finally\<close> block is there to delete what the
  run has created, and the variable \<^verbatim>\<open>extractedSqlFile\<close> is assigned only when the
  unpack has resolved. In the example whose extraction fails after it has written the dump
  file, the run has created the archive and the dump file, \<^verbatim>\<open>cleanup\<close> is called on the
  archive path alone, and the dump file is still there when the process has ended. In the
  example whose destination stream fails, the process ends in the download stage: no
  failure of the restore is reported, \<^verbatim>\<open>cleanup\<close> is not called, and the archive is left.
\<close>

theorem restore_cleanup_misses_partial_dump:
  "replace_first ''.zip'' [] ''backup-shop-2024-01-01.sql.zip'' = ''backup-shop-2024-01-01.sql'' \<and>
   fs_files example_world = {} \<and>
   fs_files (snd (restore_try_catch example_cfg partial_unzip_env example_world)) =
     {''backup-shop-2024-01-01.sql.zip'', ''backup-shop-2024-01-01.sql''} \<and>
   cleanup_calls (new_events example_world
      (snd (runRestoreProcess example_cfg partial_unzip_env example_world))) =
     [[''backup-shop-2024-01-01.sql.zip'']] \<and>
   exitCode (snd (runRestoreProcess example_cfg partial_unzip_env example_world)) = 1 \<and>
   fs_files (snd (runRestoreProcess example_cfg partial_unzip_env example_world)) =
     {''backup-shop-2024-01-01.sql''} \<and>
   fs_files (fst (main example_penv partial_unzip_env example_world)) =
     {''backup-shop-2024-01-01.sql''} \<and>
   fst (runRestoreProcess example_cfg dest_error_env example_world) = Never \<and>
   new_events example_world (snd (runRestoreProcess example_cfg dest_error_env example_world)) =
     [ConsoleLog ''Listing backups from Google Drive...'', DriveList (list_query example_cfg),
      PromptList ''Select a backup to restore:'' (map (choice_label dest_error_env) example_backups),
      PromptConfirm (confirm_message example_cfg (example_backups ! 1)) False,
      ConsoleLog ''Downloading backup-shop-2024-01-01.sql.zip...'',
      CreateWriteStream ''backup-shop-2024-01-01.sql.zip'', DriveGet ''id1'',
      UncaughtException ''ENOSPC: no space left on device''] \<and>
   fs_files (fst (main example_penv dest_error_env example_world)) =
     {''backup-shop-2024-01-01.sql.zip''} \<and>
   snd (main example_penv dest_error_env example_world) = 1"
proof -
  let ?zip = "''backup-shop-2024-01-01.sql.zip''"
  let ?sql = "''backup-shop-2024-01-01.sql''"
  have chosen: "length example_backups = 2" "file_name (example_backups ! Suc 0) = ?zip"
      "file_id (example_backups ! Suc 0) = ''id1''"
    by (simp_all add: example_backups_def)
  have cfg: "load_config example_penv = Inr example_cfg"
    by (simp add: example_penv_def example_cfg_def load_config_def validate_env_def
          requiredEnvVars_def getenv_def)
  have p: "list_result partial_unzip_env = Inr example_backups"
      "select_answer partial_unzip_env = Inr 1" "confirm_answer partial_unzip_env = Inr (Some True)"
      "dest_result partial_unzip_env = DestOpened" "get_result partial_unzip_env = StreamEnded"
      "unzip_result partial_unzip_env = ExtractError ''invalid signature''"
      "unzip_written partial_unzip_env = [?sql]" "unlink_error partial_unzip_env ?zip = None"
      "menu_answer partial_unzip_env = Inr Restore"
    by (simp_all add: partial_unzip_env_def example_env_def)
  have ptry: "fst (restore_try example_cfg partial_unzip_env w) = Rejected ''invalid signature''"
      "fst (restore_try_catch example_cfg partial_unzip_env w) = (?zip, [])"
      "fs_files (snd (restore_try_catch example_cfg partial_unzip_env w)) =
         insert ?zip (fs_files w) \<union> {?sql}"
      "exitCode (snd (restore_try_catch example_cfg partial_unzip_env w)) = 1"
      "pending_opens (snd (restore_try_catch example_cfg partial_unzip_env w)) =
         removeAll ?zip (pending_opens w @ [?zip])" for w
    by (simp_all add: restore_unfold restore_stage_simps p chosen downloadFileFromDrive_def
          download_request_world)
  have prun: "runRestoreProcess example_cfg partial_unzip_env w =
      (Resolved JSUndefined,
       cleanup partial_unzip_env [?zip] (snd (restore_try_catch example_cfg partial_unzip_env w)))"
    for w
    by (simp add: runRestoreProcess_settled ptry restore_cleanup_alt)
  obtain e1 where e1: "trace (snd (restore_try_catch example_cfg partial_unzip_env example_world)) =
      trace example_world @ e1" "cleanup_calls e1 = []"
    using restore_try_catch_trace [of example_cfg partial_unzip_env example_world] by blast
  obtain e2 where e2: "trace (cleanup partial_unzip_env [?zip]
        (snd (restore_try_catch example_cfg partial_unzip_env example_world))) =
      trace (snd (restore_try_catch example_cfg partial_unzip_env example_world)) @
      CleanupCalled [?zip] # ConsoleLog ''Cleaning up temporary files...'' # e2"
      "cleanup_calls e2 = []"
    using cleanup_trace [of partial_unzip_env "[?zip]"
        "snd (restore_try_catch example_cfg partial_unzip_env example_world)"] by blast
  have "new_events example_world
      (snd (runRestoreProcess example_cfg partial_unzip_env example_world)) =
      e1 @ CleanupCalled [?zip] # ConsoleLog ''Cleaning up temporary files...'' # e2"
    by (rule new_events_append) (simp add: prun e1 e2)
  then have calls: "cleanup_calls (new_events example_world
      (snd (runRestoreProcess example_cfg partial_unzip_env example_world))) = [[?zip]]"
    using e1 e2 by simp
  have left: "fs_files (snd (runRestoreProcess example_cfg partial_unzip_env w)) =
      insert ?sql (fs_files w - {?zip})" for w
    by (auto simp add: prun cleanup_files ptry p)
  have pmain: "fs_files (fst (main example_penv partial_unzip_env example_world)) = {?sql}"
    by (simp add: main_def showMainMenu_def Let_def after_pipeline_def cfg p prun
          cleanup_files cleanup_pending ptry)
      (auto simp add: example_world_def p)
  have d: "list_result dest_error_env = Inr example_backups"
      "select_answer dest_error_env = Inr 1" "confirm_answer dest_error_env = Inr (Some True)"
      "dest_result dest_error_env = DestError ''ENOSPC: no space left on device'' True"
      "menu_answer dest_error_env = Inr Restore"
    by (simp_all add: dest_error_env_def example_env_def)
  have dtry: "fst (restore_try example_cfg dest_error_env w) = Never"
      "fs_files (snd (restore_try_catch example_cfg dest_error_env w)) = insert ?zip (fs_files w)"
      "trace (snd (restore_try_catch example_cfg dest_error_env w)) = trace w @
        [ConsoleLog ''Listing backups from Google Drive...'', DriveList (list_query example_cfg),
         PromptList ''Select a backup to restore:'' (map (choice_label dest_error_env) example_backups),
         PromptConfirm (confirm_message example_cfg (example_backups ! 1)) False,
         ConsoleLog ''Downloading backup-shop-2024-01-01.sql.zip...'',
         CreateWriteStream ?zip, DriveGet ''id1'',
         UncaughtException ''ENOSPC: no space left on device'']" for w
    by (simp_all add: restore_unfold restore_stage_simps d chosen)
  have drun: "runRestoreProcess example_cfg dest_error_env w =
      (Never, snd (restore_try_catch example_cfg dest_error_env w))" for w
    by (simp add: runRestoreProcess_never dtry)
  have devs: "new_events example_world
      (snd (runRestoreProcess example_cfg dest_error_env example_world)) =
     [ConsoleLog ''Listing backups from Google Drive...'', DriveList (list_query example_cfg),
      PromptList ''Select a backup to restore:'' (map (choice_label dest_error_env) example_backups),
      PromptConfirm (confirm_message example_cfg (example_backups ! 1)) False,
      ConsoleLog ''Downloading backup-shop-2024-01-01.sql.zip...'',
      CreateWriteStream ?zip, DriveGet ''id1'',
      UncaughtException ''ENOSPC: no space left on device'']"
    by (rule new_events_append) (simp add: drun dtry)
  have dmain: "fs_files (fst (main example_penv dest_error_env example_world)) = {?zip}"
      "snd (main example_penv dest_error_env example_world) = 1"
    by (simp_all add: main_def showMainMenu_def Let_def after_pipeline_def cfg d drun dtry)
      (simp add: example_world_def)
  have w0: "fs_files example_world = {}"
    by (simp add: example_world_def)
  have "fs_files (snd (restore_try_catch example_cfg partial_unzip_env example_world)) =
     {?zip, ?sql}"
    by (auto simp add: ptry w0)
  moreover have "exitCode (snd (runRestoreProcess example_cfg partial_unzip_env example_world)) = 1"
    by (simp add: prun cleanup_exitCode ptry)
  moreover have "fs_files (snd (runRestoreProcess example_cfg partial_unzip_env example_world)) = {?sql}"
    by (simp add: left w0)
  ultimately show ?thesis
    using calls pmain devs dmain w0 by (simp add: drun)
qed

text \<open>
  Claim C10 does not hold of the code. \<^verbatim>\<open>downloadFileFromDrive\<close> creates the write
  stream before it issues the request, and the path is registered before the call, so
  \<^verbatim>\<open>cleanup\<close> receives it. But the file of the stream is opened later: in the example
  whose request is rejected at once, no file exists at the archive path when the \<^verbatim>\<open>finally\<close>
  block runs, \<^verbatim>\<open>cleanup\<close> deletes nothing, and the file appears afterwards and is left
  when the process has ended.
\<close>

theorem rejected_download_leaves_late_file:
  "get_result rejected_get_env = GetRejected ''socket hang up'' \<and>
   dest_result rejected_get_env = DestOpensLate \<and>
   new_events example_world (snd (runRestoreProcess example_cfg rejected_get_env example_world)) =
     [ConsoleLog ''Listing backups from Google Drive...'', DriveList (list_query example_cfg),
      PromptList ''Select a backup to restore:'' (map (choice_label rejected_get_env) example_backups),
      PromptConfirm (confirm_message example_cfg (example_backups ! 1)) False,
      ConsoleLog ''Downloading backup-shop-2024-01-01.sql.zip...'',
      CreateWriteStream ''backup-shop-2024-01-01.sql.zip'', DriveGet ''id1'',
      ConsoleError ''Restore failed: socket hang up'',
      CleanupCalled [''backup-shop-2024-01-01.sql.zip''],
      ConsoleLog ''Cleaning up temporary files...''] \<and>
   ''backup-shop-2024-01-01.sql.zip''
     \<notin> fs_files (snd (restore_try_catch example_cfg rejected_get_env example_world)) \<and>
   unlink_attempts (new_events example_world
      (snd (runRestoreProcess example_cfg rejected_get_env example_world))) = [] \<and>
   fs_files (snd (runRestoreProcess example_cfg rejected_get_env example_world)) = {} \<and>
   fs_files (fst (main example_penv rejected_get_env example_world)) =
     {''backup-shop-2024-01-01.sql.zip''} \<and>
   snd (main example_penv rejected_get_env example_world) = 1"
proof -
  let ?zip = "''backup-shop-2024-01-01.sql.zip''"
  have chosen: "length example_backups = 2" "file_name (example_backups ! Suc 0) = ?zip"
      "file_id (example_backups ! Suc 0) = ''id1''"
    by (simp_all add: example_backups_def)
  have cfg: "load_config example_penv = Inr example_cfg"
    by (simp add: example_penv_def example_cfg_def load_config_def validate_env_def
          requiredEnvVars_def getenv_def)
  have r: "list_result rejected_get_env = Inr example_backups"
      "select_answer rejected_get_env = Inr 1" "confirm_answer rejected_get_env = Inr (Some True)"
      "dest_result rejected_get_env = DestOpensLate"
      "get_result rejected_get_env = GetRejected ''socket hang up''"
      "menu_answer rejected_get_env = Inr Restore"
    by (simp_all add: rejected_get_env_def example_env_def)
  have rtry: "fst (restore_try example_cfg rejected_get_env w) = Rejected ''socket hang up''"
      "fst (restore_try_catch example_cfg rejected_get_env w) = (?zip, [])"
      "fs_files (snd (restore_try_catch example_cfg rejected_get_env w)) = fs_files w"
      "exitCode (snd (restore_try_catch example_cfg rejected_get_env w)) = 1"
      "pending_opens (snd (restore_try_catch example_cfg rejected_get_env w)) =
         pending_opens w @ [?zip]"
      "trace (snd (restore_try_catch example_cfg rejected_get_env w)) = trace w @
        [ConsoleLog ''Listing backups from Google Drive...'', DriveList (list_query example_cfg),
         PromptList ''Select a backup to restore:''
           (map (choice_label rejected_get_env) example_backups),
         PromptConfirm (confirm_message example_cfg (example_backups ! 1)) False,
         ConsoleLog ''Downloading backup-shop-2024-01-01.sql.zip...'',
         CreateWriteStream ?zip, DriveGet ''id1'',
         ConsoleError ''Restore failed: socket hang up'']" for w
    by (simp_all add: restore_unfold restore_stage_simps r chosen downloadFileFromDrive_pending)
  have run: "runRestoreProcess example_cfg rejected_get_env w =
      (Resolved JSUndefined,
       cleanup rejected_get_env [?zip] (snd (restore_try_catch example_cfg rejected_get_env w)))"
    for w
    by (simp add: runRestoreProcess_settled rtry restore_cleanup_alt)
  have absent: "?zip \<notin> fs_files (snd (restore_try_catch example_cfg rejected_get_env example_world))"
    by (simp add: rtry example_world_def)
  have tr: "trace (cleanup rejected_get_env [?zip]
        (snd (restore_try_catch example_cfg rejected_get_env example_world))) =
      trace (snd (restore_try_catch example_cfg rejected_get_env example_world)) @
      [CleanupCalled [?zip], ConsoleLog ''Cleaning up temporary files...'']"
    using absent by (simp add: cleanup_def cleanup_file_def)
  have evs: "new_events example_world
      (snd (runRestoreProcess example_cfg rejected_get_env example_world)) =
     [ConsoleLog ''Listing backups from Google Drive...'', DriveList (list_query example_cfg),
      PromptList ''Select a backup to restore:'' (map (choice_label rejected_get_env) example_backups),
      PromptConfirm (confirm_message example_cfg (example_backups ! 1)) False,
      ConsoleLog ''Downloading backup-shop-2024-01-01.sql.zip...'',
      CreateWriteStream ?zip, DriveGet ''id1'',
      ConsoleError ''Restore failed: socket hang up'',
      CleanupCalled [?zip], ConsoleLog ''Cleaning up temporary files...'']"
    by (rule new_events_append) (simp add: run tr rtry)
  have fs: "fs_files (snd (runRestoreProcess example_cfg rejected_get_env example_world)) = {}"
    by (simp add: run cleanup_files rtry example_world_def)
  have m: "fs_files (fst (main example_penv rejected_get_env example_world)) = {?zip}"
      "snd (main example_penv rejected_get_env example_world) = 1"
    by (simp_all add: main_def showMainMenu_def Let_def after_pipeline_def cfg r run
          cleanup_files cleanup_pending cleanup_exitCode rtry)
      (simp add: example_world_def)
  show ?thesis
    using absent fs m r(4,5) by (simp add: evs)
qed

subsection \<open>The menu\<close>

lemma menu_prompts_simps [simp]:
  "menu_prompts [] = []"
  "menu_prompts (e # es) = menu_choices e @ menu_prompts es"
  "menu_prompts (xs @ ys) = menu_prompts xs @ menu_prompts ys"
  by (simp_all add: menu_prompts_def)

lemma cleanup_output_not_menu: "list_all is_cleanup_output es \<Longrightarrow> menu_prompts es = []"
  by (induction es) (auto elim: is_cleanup_output.elims)

lemma backup_try_catch_menu:
  "\<exists>evs. trace (backup_try_catch cfg env w) = trace w @ evs \<and> menu_prompts evs = []"
  by (simp add: backup_try_catch_def backup_try_def case_prod_beta backup_stage_simps
       split: sum.split option.split pack_outcome.split)

lemma restore_try_catch_menu:
  "\<exists>evs. trace (snd (restore_try_catch cfg env w)) = trace w @ evs \<and> menu_prompts evs = []"
  by (simp add: restore_unfold restore_stage_simps menu_message_def split: restore_splits)

lemma cleanup_menu:
  "\<exists>evs. trace (cleanup env ps w) = trace w @ evs \<and> menu_prompts evs = []"
proof -
  obtain e2 where "trace (cleanup env ps w) =
      trace w @ CleanupCalled ps # ConsoleLog ''Cleaning up temporary files...'' # e2"
    "list_all is_cleanup_output e2"
    using cleanup_trace [of env ps w] by blast
  then have "trace (cleanup env ps w) =
      trace w @ (CleanupCalled ps # ConsoleLog ''Cleaning up temporary files...'' # e2) \<and>
    menu_prompts (CleanupCalled ps # ConsoleLog ''Cleaning up temporary files...'' # e2) = []"
    by (simp add: cleanup_output_not_menu)
  then show ?thesis by blast
qed

lemma runBackupProcess_menu:
  "\<exists>evs. trace (snd (runBackupProcess cfg env w)) = trace w @ evs \<and> menu_prompts evs = []"
proof (cases "fst (backup_try cfg env w) = Never")
  case True
  then show ?thesis
    using backup_try_catch_menu [of cfg env w] by (simp add: runBackupProcess_never)
next
  case False
  let ?ps = "[backup_dumpFile cfg env, backup_zipFile cfg env]"
  obtain e1 where e1: "trace (backup_try_catch cfg env w) = trace w @ e1" "menu_prompts e1 = []"
    using backup_try_catch_menu [of cfg env w] by blast
  obtain e2 where e2: "trace (cleanup env ?ps (backup_try_catch cfg env w)) =
      trace (backup_try_catch cfg env w) @ e2" "menu_prompts e2 = []"
    using cleanup_menu [of env ?ps "backup_try_catch cfg env w"] by blast
  have "trace (snd (runBackupProcess cfg env w)) = trace w @ (e1 @ e2) \<and>
      menu_prompts (e1 @ e2) = []"
    using e1 e2 by (simp add: runBackupProcess_settled [OF False])
  then show ?thesis by blast
qed

lemma runRestoreProcess_menu:
  "\<exists>evs. trace (snd (runRestoreProcess cfg env w)) = trace w @ evs \<and> menu_prompts evs = []"
proof (cases "fst (restore_try cfg env w) = Never")
  case True
  then show ?thesis
    using restore_try_catch_menu [of cfg env w] by (simp add: runRestoreProcess_never)
next
  case False
  let ?ps = "filter (\<lambda>s. s \<noteq> [])
     [fst (fst (restore_try_catch cfg env w)), snd (fst (restore_try_catch cfg env w))]"
  obtain e1 where e1: "trace (snd (restore_try_catch cfg env w)) = trace w @ e1"
      "menu_prompts e1 = []"
    using restore_try_catch_menu [of cfg env w] by blast
  obtain e2 where e2: "trace (cleanup env ?ps (snd (restore_try_catch cfg env w))) =
      trace (snd (restore_try_catch cfg env w)) @ e2" "menu_prompts e2 = []"
    using cleanup_menu [of env ?ps "snd (restore_try_catch cfg env w)"] by blast
  have "trace (snd (runRestoreProcess cfg env w)) = trace w @ (e1 @ e2) \<and>
      menu_prompts (e1 @ e2) = []"
    using e1 e2 by (simp add: runRestoreProcess_settled [OF False] restore_cleanup_alt)
  then show ?thesis by blast
qed

lemma after_pipeline_snd: "snd (after_pipeline r) = snd r"
  by (simp add: after_pipeline_def split: prod.split outcome.split)

lemma after_pipeline_fst:
  "fst (after_pipeline r) =
     (case fst r of Resolved u \<Rightarrow> Inr Returned | Rejected e \<Rightarrow> Inl e | Never \<Rightarrow> Inr Died)"
  by (simp add: after_pipeline_def split: prod.split outcome.split)

lemma runRestoreProcess_fst:
  "fst (runRestoreProcess cfg env w) =
     (if fst (restore_try cfg env w) = Never then Never else Resolved JSUndefined)"
  by (cases "fst (restore_try cfg env w)") (simp_all add: runRestoreProcess_def)

lemma showMainMenu_events:
  "\<exists>evs. trace (snd (showMainMenu cfg env w)) = trace w @
      [ConsoleClear, ConsoleLog ''===================================='',
       ConsoleLog ''   Database Backup & Restore Tool   '',
       ConsoleLog ''===================================='',
       PromptList menu_message [''1. Backup Database to Google Drive'',
         ''2. Restore Database from Google Drive'', ''Exit'']] @ evs \<and>
     menu_prompts evs = []"
proof (cases "menu_answer env")
  case (Inl e)
  then show ?thesis by (simp add: showMainMenu_def Let_def)
next
  case (Inr a)
  show ?thesis
  proof (cases a)
    case Backup
    let ?w5 = "emit (PromptList menu_message [''1. Backup Database to Google Drive'',
         ''2. Restore Database from Google Drive'', ''Exit''])
        (emit (ConsoleLog ''===================================='')
        (emit (ConsoleLog ''   Database Backup & Restore Tool   '')
        (emit (ConsoleLog ''===================================='') (emit ConsoleClear w))))"
    obtain evs where "trace (snd (runBackupProcess cfg env ?w5)) = trace ?w5 @ evs"
      "menu_prompts evs = []"
      using runBackupProcess_menu [of cfg env ?w5] by blast
    then show ?thesis using Inr Backup
      by (simp add: showMainMenu_def Let_def after_pipeline_snd)
  next
    case Restore
    let ?w5 = "emit (PromptList menu_message [''1. Backup Database to Google Drive'',
         ''2. Restore Database from Google Drive'', ''Exit''])
        (emit (ConsoleLog ''===================================='')
        (emit (ConsoleLog ''   Database Backup & Restore Tool   '')
        (emit (ConsoleLog ''===================================='') (emit ConsoleClear w))))"
    obtain evs where "trace (snd (runRestoreProcess cfg env ?w5)) = trace ?w5 @ evs"
      "menu_prompts evs = []"
      using runRestoreProcess_menu [of cfg env ?w5] by blast
    then show ?thesis using Inr Restore
      by (simp add: showMainMenu_def Let_def after_pipeline_snd)
  next
    case ExitMenu
    then show ?thesis using Inr by (simp add: showMainMenu_def Let_def)
  qed
qed

lemma main_events:
  assumes "load_config penv = Inr cfg"
  shows "\<exists>evs. new_events w (fst (main penv env w)) =
      [ConsoleClear, ConsoleLog ''===================================='',
       ConsoleLog ''   Database Backup & Restore Tool   '',
       ConsoleLog ''===================================='',
       PromptList menu_message [''1. Backup Database to Google Drive'',
         ''2. Restore Database from Google Drive'', ''Exit'']] @ evs \<and>
     menu_prompts evs = []"
proof -
  obtain evs where ev: "trace (snd (showMainMenu cfg env w)) = trace w @
      [ConsoleClear, ConsoleLog ''===================================='',
       ConsoleLog ''   Database Backup & Restore Tool   '',
       ConsoleLog ''===================================='',
       PromptList menu_message [''1. Backup Database to Google Drive'',
         ''2. Restore Database from Google Drive'', ''Exit'']] @ evs"
     "menu_prompts evs = []"
    using showMainMenu_events [of cfg env w] by blast
  have "\<exists>more. trace (fst (main penv env w)) = trace (snd (showMainMenu cfg env w)) @ more \<and>
      menu_prompts more = []"
  proof (cases "fst (showMainMenu cfg env w)")
    case (Inl e)
    then show ?thesis using assms by (simp add: main_def case_prod_beta)
  next
    case (Inr c)
    then show ?thesis using assms by (cases c) (simp_all add: main_def case_prod_beta)
  qed
  then obtain more where more:
    "trace (fst (main penv env w)) = trace (snd (showMainMenu cfg env w)) @ more"
    "menu_prompts more = []"
    by blast
  have "new_events w (fst (main penv env w)) =
      [ConsoleClear, ConsoleLog ''===================================='',
       ConsoleLog ''   Database Backup & Restore Tool   '',
       ConsoleLog ''===================================='',
       PromptList menu_message [''1. Backup Database to Google Drive'',
         ''2. Restore Database from Google Drive'', ''Exit'']] @ (evs @ more)"
    by (rule new_events_append) (simp add: more ev)
  moreover have "menu_prompts (evs @ more) = []"
    using ev(2) more(2) by simp
  ultimately show ?thesis by blast
qed

lemma main_returned:
  assumes "load_config penv = Inr cfg"
  shows "fst (showMainMenu cfg env w) = Inr Returned \<Longrightarrow>
           snd (main penv env w) = exitCode (fst (main penv env w))"
    and "fst (showMainMenu cfg env w) = Inr Died \<Longrightarrow> snd (main penv env w) = 1"
    and "menu_answer env = Inr Backup \<or> menu_answer env = Inr Restore \<Longrightarrow>
           fst (showMainMenu cfg env w) = Inr Returned \<or> fst (showMainMenu cfg env w) = Inr Died"
  using assms
  by (auto simp add: main_def case_prod_beta showMainMenu_def Let_def after_pipeline_fst
        runBackupProcess_fst runRestoreProcess_fst)

text \<open>
  Claim C9, as the code has it. \<^verbatim>\<open>showMainMenu\<close> is called once and has no loop: in every
  invocation that passes the validation of the environment the menu is offered exactly
  once, as the first prompt. Once the backup or the restore is chosen, \<^verbatim>\<open>showMainMenu\<close>
  either returns, when the chosen pipeline has run to completion, and the process then
  ends with \<^verbatim>\<open>process.exitCode\<close> as its status; or the process is ended with status 1 by
  a stream error that nothing handles. In neither case is the menu offered again.
\<close>

theorem menu_is_offered_once:
  assumes "load_config penv = Inr cfg"
  shows "take 5 (new_events w (fst (main penv env w))) =
           [ConsoleClear, ConsoleLog ''===================================='',
            ConsoleLog ''   Database Backup & Restore Tool   '',
            ConsoleLog ''===================================='',
            PromptList menu_message [''1. Backup Database to Google Drive'',
              ''2. Restore Database from Google Drive'', ''Exit'']] \<and>
         menu_prompts (drop 5 (new_events w (fst (main penv env w)))) = [] \<and>
         menu_prompts (new_events w (fst (main penv env w))) =
           [[''1. Backup Database to Google Drive'',
             ''2. Restore Database from Google Drive'', ''Exit'']] \<and>
         (menu_answer env = Inr Backup \<or> menu_answer env = Inr Restore \<longrightarrow>
            fst (showMainMenu cfg env w) = Inr Returned \<or>
            fst (showMainMenu cfg env w) = Inr Died) \<and>
         (fst (showMainMenu cfg env w) = Inr Returned \<longrightarrow>
            snd (main penv env w) = exitCode (fst (main penv env w))) \<and>
         (fst (showMainMenu cfg env w) = Inr Died \<longrightarrow> snd (main penv env w) = 1)"
proof -
  obtain evs where ev: "new_events w (fst (main penv env w)) =
      [ConsoleClear, ConsoleLog ''===================================='',
       ConsoleLog ''   Database Backup & Restore Tool   '',
       ConsoleLog ''===================================='',
       PromptList menu_message [''1. Backup Database to Google Drive'',
         ''2. Restore Database from Google Drive'', ''Exit'']] @ evs"
     "menu_prompts evs = []"
    using main_events [OF assms, of w env] by blast
  show ?thesis
    unfolding ev(1) using ev(2) main_returned [OF assms, of env w] by simp
qed

theorem menu_is_offered_once_witness:
  "load_config example_penv = Inr example_cfg \<and> menu_answer example_env = Inr Backup \<and>
   menu_prompts (new_events example_world (fst (main example_penv example_env example_world))) =
     [[''1. Backup Database to Google Drive'', ''2. Restore Database from Google Drive'', ''Exit'']] \<and>
   fst (showMainMenu example_cfg example_env example_world) = Inr Returned \<and>
   snd (main example_penv example_env example_world) =
     exitCode (fst (main example_penv example_env example_world))"
proof -
  have cfg: "load_config example_penv = Inr example_cfg"
    by (simp add: example_config_simps)
  have ans: "menu_answer example_env = Inr Backup"
      "exec_error (mysqldump_result example_env) = None"
      "archive_result example_env = OutputClosed 1234"
    by (simp_all add: example_env_def)
  have "fst (showMainMenu example_cfg example_env example_world) = Inr Returned"
    by (simp add: showMainMenu_def Let_def after_pipeline_fst runBackupProcess_fst
          backup_try_never_iff ans)
  then show ?thesis
    using menu_is_offered_once [where penv = example_penv and cfg = example_cfg
       and env = example_env and w = example_world] cfg ans(1)
    by simp
qed

text \<open>
  The claim as stated fails: in the example, where the backup is chosen and every stage
  succeeds, the process ends with status 0 once the pipeline has run; the menu prompt is
  the fifth event of the process, and none of the events after it is a menu prompt.
\<close>

theorem menu_not_offered_again:
  "menu_answer example_env = Inr Backup \<and>
   snd (main example_penv example_env example_world) = 0 \<and>
   take 5 (new_events example_world (fst (main example_penv example_env example_world))) =
     [ConsoleClear, ConsoleLog ''===================================='',
      ConsoleLog ''   Database Backup & Restore Tool   '',
      ConsoleLog ''===================================='',
      PromptList menu_message [''1. Backup Database to Google Drive'',
        ''2. Restore Database from Google Drive'', ''Exit'']] \<and>
   menu_prompts
     (drop 5 (new_events example_world (fst (main example_penv example_env example_world)))) = []"
proof -
  have cfg: "load_config example_penv = Inr example_cfg"
    by (simp add: example_config_simps)
  have ans: "menu_answer example_env = Inr Backup"
      "exec_error (mysqldump_result example_env) = None"
      "archive_result example_env = OutputClosed 1234"
      "upload_result example_env =
         Inr \<lparr>created_id = ''id3'', created_name = ''n'', webViewLink = ''l''\<rparr>"
    by (simp_all add: example_env_def)
  have settled: "fst (backup_try example_cfg example_env w) = Resolved ()" for w
    by (simp add: backup_try_fst ans)
  obtain evs where ev: "new_events example_world (fst (main example_penv example_env example_world)) =
      [ConsoleClear, ConsoleLog ''===================================='',
       ConsoleLog ''   Database Backup & Restore Tool   '',
       ConsoleLog ''===================================='',
       PromptList menu_message [''1. Backup Database to Google Drive'',
         ''2. Restore Database from Google Drive'', ''Exit'']] @ evs"
     "menu_prompts evs = []"
    using main_events [OF cfg, of example_world example_env] by blast
  have "snd (main example_penv example_env example_world) = 0"
    by (simp add: main_def showMainMenu_def Let_def after_pipeline_def cfg ans(1)
          runBackupProcess_settled settled cleanup_exitCode backup_try_catch_exitCode)
      (simp add: example_world_def)
  then show ?thesis unfolding ev(1) using ev(2) ans(1) by simp
qed

subsection \<open>Configuration and command lines\<close>

lemma fields_blank_free: "CHR '' '' \<notin> set a \<Longrightarrow> fields a = [a]"
  by (induction a) auto

lemma fields_append: "CHR '' '' \<notin> set a \<Longrightarrow> fields (a @ CHR '' '' # r) = a # fields r"
  by (induction a) auto

lemma load_config_fields:
  assumes "load_config penv = Inr cfg"
  shows "DB_HOST cfg \<noteq> []" and "DB_USER cfg \<noteq> []" and "DB_NAME cfg \<noteq> []"
    and "penv ''DB_PASSWORD'' = Some (DB_PASSWORD cfg)"
    and "check_required penv requiredEnvVars = Inr ()"
  using assms
  by (auto simp add: load_config_def validate_env_def requiredEnvVars_def getenv_def
        split: sum.splits if_splits option.splits elim: falsy.elims)

lemma check_required_password_unset:
  "check_required (penv(''DB_PASSWORD'' := None)) requiredEnvVars =
     check_required penv requiredEnvVars"
  by (simp add: requiredEnvVars_def)

text \<open>
  Claim C5. When the password is set to the empty string (and the configuration passes
  the validation), \<^verbatim>\<open>passwordArg\<close> is empty: the dump command and the import command
  have nothing but blanks between the user and the database name, and the words they are
  split into at their blanks hold no credential argument at all. A password that is not
  set is told apart from an empty one: the same environment without the variable is
  rejected at startup, before anything runs.
\<close>

theorem empty_password_omits_credential:
  assumes "penv ''DB_PASSWORD'' = Some []" and "load_config penv = Inr cfg"
    and "CHR '' '' \<notin> set (DB_HOST cfg)" and "CHR '' '' \<notin> set (DB_USER cfg)"
    and "CHR '' '' \<notin> set (DB_NAME cfg)" and "CHR '' '' \<notin> set f" and "f \<noteq> []"
  shows "passwordArg cfg = [] \<and>
         dumpCmd cfg f =
           ''mysqldump -h '' @ DB_HOST cfg @ '' -u '' @ DB_USER cfg @ ''  '' @ DB_NAME cfg @
           '' > '' @ f \<and>
         importCmd cfg f =
           ''mysql -h '' @ DB_HOST cfg @ '' -u '' @ DB_USER cfg @ ''  '' @ DB_NAME cfg @
           '' < '' @ f \<and>
         shell_words (dumpCmd cfg f) =
           [''mysqldump'', ''-h'', DB_HOST cfg, ''-u'', DB_USER cfg, DB_NAME cfg, ''>'', f] \<and>
         shell_words (importCmd cfg f) =
           [''mysql'', ''-h'', DB_HOST cfg, ''-u'', DB_USER cfg, DB_NAME cfg, ''<'', f] \<and>
         load_config (penv(''DB_PASSWORD'' := None)) =
           Inl (''Missing required environment variable: DB_PASSWORD. '' @
                ''If you have no password, set it to DB_PASSWORD= in your .env file.'') \<and>
         main (penv(''DB_PASSWORD'' := None)) env w = (w, 1)"
proof -
  note cf = load_config_fields [OF assms(2)]
  have pw: "passwordArg cfg = []"
    using assms(1) cf(4) by (simp add: passwordArg_def)
  have dump: "shell_words (dumpCmd cfg f) =
           [''mysqldump'', ''-h'', DB_HOST cfg, ''-u'', DB_USER cfg, DB_NAME cfg, ''>'', f]"
    using assms(3-7) cf(1-3)
    by (simp add: shell_words_def dumpCmd_def pw fields_append fields_blank_free)
  have imp: "shell_words (importCmd cfg f) =
           [''mysql'', ''-h'', DB_HOST cfg, ''-u'', DB_USER cfg, DB_NAME cfg, ''<'', f]"
    using assms(3-7) cf(1-3)
    by (simp add: shell_words_def importCmd_def pw fields_append fields_blank_free)
  have unset: "load_config (penv(''DB_PASSWORD'' := None)) =
           Inl (''Missing required environment variable: DB_PASSWORD. '' @
                ''If you have no password, set it to DB_PASSWORD= in your .env file.'')"
    by (simp add: load_config_def validate_env_def check_required_password_unset cf(5))
  have "main (penv(''DB_PASSWORD'' := None)) env w = (w, 1)"
    by (simp add: main_def unset)
  then show ?thesis using pw dump imp unset by (simp add: dumpCmd_def importCmd_def)
qed

theorem empty_password_omits_credential_witness:
  "example_penv ''DB_PASSWORD'' = Some [] \<and> load_config example_penv = Inr example_cfg \<and>
   CHR '' '' \<notin> set (DB_HOST example_cfg) \<and> CHR '' '' \<notin> set (DB_USER example_cfg) \<and>
   CHR '' '' \<notin> set (DB_NAME example_cfg) \<and> CHR '' '' \<notin> set ''dump.sql'' \<and>
   shell_words (dumpCmd example_cfg ''dump.sql'') =
     [''mysqldump'', ''-h'', ''localhost'', ''-u'', ''root'', ''shop'', ''>'', ''dump.sql''] \<and>
   dumpCmd example_cfg ''dump.sql'' = ''mysqldump -h localhost -u root  shop > dump.sql'' \<and>
   main (example_penv(''DB_PASSWORD'' := None)) example_env example_world = (example_world, 1)"
  using empty_password_omits_credential [where penv = example_penv and cfg = example_cfg
     and f = "''dump.sql''" and env = example_env and w = example_world]
  by (simp add: example_config_simps shell_words_def dumpCmd_def importCmd_def passwordArg_def)

subsection \<open>The value of the pack operation\<close>

text \<open>
  Claim C8, as the code has it. A pack that succeeds resolves with no value: the promise
  of \<^verbatim>\<open>zipFileFunc\<close> is resolved by \<^verbatim>\<open>resolve()\<close>, and the byte count
  \<^verbatim>\<open>archive.pointer()\<close> only appears in the console message that ends the stage.
\<close>

theorem pack_resolves_with_no_value:
  assumes "archive_result env = OutputClosed n"
  shows "fst (zipFileFunc env dumpFile zipFile w) = Resolved JSUndefined \<and>
         new_events w (snd (zipFileFunc env dumpFile zipFile w)) =
           [ConsoleLog (''Compressing '' @ dumpFile @ ''...''), CreateWriteStream zipFile,
            ArchiveFile dumpFile dumpFile,
            ConsoleLog (''File compressed: '' @ zipFile @ '' ('' @ dec n @ '' bytes)'')]"
  using assms by (simp add: new_events_def zipFileFunc_fst zipFileFunc_trace)

lemma dec_1234: "dec 1234 = ''1234''"
  by (simp add: dec.simps)

theorem pack_resolves_with_no_value_witness:
  "archive_result example_env = OutputClosed 1234 \<and>
   fst (zipFileFunc example_env ''d.sql'' ''d.sql.zip'' example_world) = Resolved JSUndefined \<and>
   new_events example_world (snd (zipFileFunc example_env ''d.sql'' ''d.sql.zip'' example_world)) =
     [ConsoleLog ''Compressing d.sql...'', CreateWriteStream ''d.sql.zip'',
      ArchiveFile ''d.sql'' ''d.sql'',
      ConsoleLog ''File compressed: d.sql.zip (1234 bytes)'']"
  using pack_resolves_with_no_value [where env = example_env and n = 1234
     and dumpFile = "''d.sql''" and zipFile = "''d.sql.zip''" and w = example_world]
  by (simp add: example_env_def dec_1234)

text \<open>
  The claim as stated fails: in the example the archive is written with 1234 bytes, and
  the value the pack operation resolves with is not that number.
\<close>

theorem pack_does_not_return_byte_count:
  "archive_result example_env = OutputClosed 1234 \<and>
   fst (zipFileFunc example_env ''d.sql'' ''d.sql.zip'' example_world) \<noteq> Resolved (JSNumber 1234)"
  by (simp add: zipFileFunc_fst example_env_def)

subsection \<open>The name of the extracted file\<close>

text \<open>
  Claim C4 does not hold of the code. \<^verbatim>\<open>zipFile.replace('.zip', '')\<close> removes the first
  occurrence of \<^verbatim>\<open>.zip\<close>, not the suffix. For a database named \<^verbatim>\<open>geo.zipcodes\<close> the
  backup pipeline writes the dump under a name that contains \<^verbatim>\<open>.zip\<close> and names the
  archive by appending \<^verbatim>\<open>.zip\<close>; unpacking that archive gives back a path that is not
  the name of the dump.
\<close>

theorem unzip_removes_first_occurrence:
  "backup_dumpFile zipcodes_cfg example_env = ''backup-geo.zipcodes-2024-01-01T00-00-00-000Z.sql'' \<and>
   backup_zipFile zipcodes_cfg example_env = backup_dumpFile zipcodes_cfg example_env @ ''.zip'' \<and>
   fst (unzipRestoreFile example_env (backup_zipFile zipcodes_cfg example_env) w) =
     Resolved ''backup-geocodes-2024-01-01T00-00-00-000Z.sql.zip''"
  by (simp add: unzipRestoreFile_fst backup_zipFile_def backup_dumpFile_def timestamp_def
        zipcodes_cfg_def example_cfg_def example_env_def)

text \<open>
  Where the name before the suffix has no \<^verbatim>\<open>.zip\<close> in it, the first occurrence is the
  suffix, and the path returned is the name without it.
\<close>

lemma prefix_zip_append:
  "prefix ''.zip'' (s @ ''.zip'') \<Longrightarrow> s \<noteq> [] \<Longrightarrow> prefix ''.zip'' s"
proof -
  assume p: "prefix ''.zip'' (s @ ''.zip'')" and ne: "s \<noteq> []"
  show ?thesis
  proof (cases s)
    case Nil
    then show ?thesis using ne by simp
  next
    case (Cons a s1)
    show ?thesis
    proof (cases s1)
      case Nil
      then show ?thesis using p Cons by simp
    next
      case (Cons b s2)
      note c2 = this
      show ?thesis
      proof (cases s2)
        case Nil
        then show ?thesis using p \<open>s = a # s1\<close> c2 by simp
      next
        case (Cons c s3)
        then show ?thesis using p \<open>s = a # s1\<close> c2 by (cases s3) simp_all
      qed
    qed
  qed
qed

lemma replace_first_strips_suffix:
  "\<not> sublist ''.zip'' s \<Longrightarrow> replace_first ''.zip'' [] (s @ ''.zip'') = s"
proof (induction s)
  case Nil
  then show ?case by simp
next
  case (Cons c cs)
  have np: "\<not> prefix ''.zip'' (c # cs)"
    using Cons.prems prefix_imp_sublist by blast
  have "\<not> prefix ''.zip'' ((c # cs) @ ''.zip'')"
    using np prefix_zip_append [of "c # cs"] by blast
  moreover have "\<not> sublist ''.zip'' cs"
    using Cons.prems by (meson sublist_Cons_right)
  ultimately have np2: "\<not> prefix ''.zip'' (c # (cs @ ''.zip''))"
    and ih: "replace_first ''.zip'' [] (cs @ ''.zip'') = cs"
    using Cons.IH by (simp_all only: append_Cons not_False_eq_True)
  have "replace_first ''.zip'' [] (c # (cs @ ''.zip'')) =
      c # replace_first ''.zip'' [] (cs @ ''.zip'')"
    by (subst replace_first.simps(2)) (simp only: np2 if_False)
  then show ?case by (simp only: append_Cons ih)
qed

lemma unzipRestoreFile_strips_suffix:
  "\<not> sublist ''.zip'' s \<Longrightarrow> unzip_result env = ExtractClosed \<Longrightarrow>
     fst (unzipRestoreFile env (s @ ''.zip'') w) = Resolved s"
  using replace_first_strips_suffix [of s] by (simp add: unzipRestoreFile_fst)

end
